theory Spec2Isabelle
  imports Complex_Main
begin

section \<open>Shapes, errors and the layers of the tensor library\<close>

text \<open>
  The networks of \<^verbatim>\<open>models/resnet.py\<close> are compositions of library layers. What the
  repository's own code decides is which layers are built, with which channel counts,
  strides and shortcuts, so the embedding follows every tensor by its shape. A feature
  map has the shape (batch, channel, height, width); after \<^verbatim>\<open>nn.Flatten\<close> a batch of
  vectors has the shape (batch, features). An exception of the library or of Python is
  a value of the type \<open>error\<close>.
\<close>

datatype error =
    Groups_not_positive
  | In_channels_not_divisible
  | Out_channels_not_divisible
  | Channel_mismatch
  | Stride_not_positive
  | Kernel_too_large
  | Output_too_small
  | Empty_input
  | Single_value_in_training
  | Not_broadcastable
  | Features_mismatch
  | Slice_step_zero
  | ZeroDivisionError
  | Zero_channels
  | Not_a_convolution

type_synonym fmap = "nat \<times> nat \<times> nat \<times> nat"

type_synonym vec = "nat \<times> nat"

fun bindE :: "error + 'a \<Rightarrow> ('a \<Rightarrow> error + 'b) \<Rightarrow> error + 'b" where
  "bindE (Inl e) f = Inl e"
| "bindE (Inr x) f = f x"

fun sequenceE :: "(error + 'a) list \<Rightarrow> error + 'a list" where
  "sequenceE [] = Inr []"
| "sequenceE (m # ms) = bindE m (\<lambda>x. bindE (sequenceE ms) (\<lambda>xs. Inr (x # xs)))"

text \<open>
  The layers the source builds. \<open>Conv2d\<close> lists \<^verbatim>\<open>in_channels\<close>, \<^verbatim>\<open>out_channels\<close>,
  \<^verbatim>\<open>kernel_size\<close>, \<^verbatim>\<open>stride\<close>, \<^verbatim>\<open>padding\<close>, \<^verbatim>\<open>groups\<close> and \<^verbatim>\<open>bias\<close>, in this order.
\<close>

datatype layer =
    Conv2d nat nat nat nat nat nat bool
  | BatchNorm2d nat
  | LayerNorm nat
  | ReLU
  | GELU
  | Identity
  | AvgPool2d nat
  | AdaptiveAvgPool2d nat nat

text \<open>
  The constructor of \<^verbatim>\<open>nn.Conv2d\<close> raises a \<^verbatim>\<open>ValueError\<close> when \<^verbatim>\<open>groups\<close> is not
  positive or does not divide both channel counts; the other layers are built without
  a check.
\<close>

definition Conv2d_init ::
  "nat \<Rightarrow> nat \<Rightarrow> nat \<Rightarrow> nat \<Rightarrow> nat \<Rightarrow> nat \<Rightarrow> bool \<Rightarrow> error + layer" where
  "Conv2d_init ci co k s p g b =
     (if g = 0 then Inl Groups_not_positive
      else if ci mod g \<noteq> 0 then Inl In_channels_not_divisible
      else if co mod g \<noteq> 0 then Inl Out_channels_not_divisible
      else Inr (Conv2d ci co k s p g b))"

definition conv_out :: "nat \<Rightarrow> nat \<Rightarrow> nat \<Rightarrow> nat \<Rightarrow> nat" where
  "conv_out h k s p = (h + 2 * p - k) div s + 1"

text \<open>
  The forward pass of one layer on a shape. \<open>training\<close> is the module's mode flag:
  \<^verbatim>\<open>nn.BatchNorm2d\<close> in training mode refuses an input with a single value per channel.
  A convolution with no input channel or no output channel raises in its forward pass.
  \<^verbatim>\<open>nn.AvgPool2d(k)\<close> has stride \<open>k\<close> and no padding.
\<close>

fun layer_forward :: "bool \<Rightarrow> layer \<Rightarrow> fmap \<Rightarrow> error + fmap" where
  "layer_forward training (Conv2d ci co k s p g b) (n, c, h, w) =
     (if ci = 0 \<or> co = 0 then Inl Zero_channels
      else if c \<noteq> ci then Inl Channel_mismatch
      else if s = 0 then Inl Stride_not_positive
      else if h + 2 * p < k \<or> w + 2 * p < k then Inl Kernel_too_large
      else Inr (n, co, conv_out h k s p, conv_out w k s p))"
| "layer_forward training (BatchNorm2d f) (n, c, h, w) =
     (if training \<and> n * h * w = 1 then Inl Single_value_in_training
      else if c \<noteq> f then Inl Channel_mismatch
      else Inr (n, c, h, w))"
| "layer_forward training (LayerNorm f) (n, a, b, c) =
     (if c \<noteq> f then Inl Features_mismatch else Inr (n, a, b, c))"
| "layer_forward training ReLU x = Inr x"
| "layer_forward training GELU x = Inr x"
| "layer_forward training Identity x = Inr x"
| "layer_forward training (AvgPool2d k) (n, c, h, w) =
     (if k = 0 then Inl Stride_not_positive
      else if h < k \<or> w < k then Inl Output_too_small
      else Inr (n, c, (h - k) div k + 1, (w - k) div k + 1))"
| "layer_forward training (AdaptiveAvgPool2d oh ow) (n, c, h, w) =
     (if c = 0 \<or> h = 0 \<or> w = 0 then Inl Empty_input else Inr (n, c, oh, ow))"

text \<open>\<^verbatim>\<open>nn.Sequential\<close>: the layers in order, stopping at the first exception.\<close>

fun Sequential_forward :: "bool \<Rightarrow> layer list \<Rightarrow> fmap \<Rightarrow> error + fmap" where
  "Sequential_forward training [] x = Inr x"
| "Sequential_forward training (l # ls) x =
     bindE (layer_forward training l x) (Sequential_forward training ls)"

text \<open>\<^verbatim>\<open>nn.Flatten\<close> keeps the batch dimension; \<^verbatim>\<open>nn.Linear(i, j)\<close> maps the last one.\<close>

fun Flatten_forward :: "fmap \<Rightarrow> vec" where
  "Flatten_forward (n, c, h, w) = (n, c * h * w)"

fun Linear_forward :: "nat \<times> nat \<Rightarrow> vec \<Rightarrow> error + vec" where
  "Linear_forward (in_features, out_features) (n, f) =
     (if f \<noteq> in_features then Inl Features_mismatch else Inr (n, out_features))"

text \<open>
  The element-wise sum of two tensors broadcasts: two sizes agree when they are equal
  or one of them is 1.
\<close>

definition broadcast :: "nat \<Rightarrow> nat \<Rightarrow> error + nat" where
  "broadcast a b =
     (if a = b then Inr a else if a = 1 then Inr b else if b = 1 then Inr a
      else Inl Not_broadcastable)"

fun add_shapes :: "fmap \<Rightarrow> fmap \<Rightarrow> error + fmap" where
  "add_shapes (n, c, h, w) (n', c', h', w') =
     bindE (broadcast n n') (\<lambda>n''.
     bindE (broadcast c c') (\<lambda>c''.
     bindE (broadcast h h') (\<lambda>h''.
     bindE (broadcast w w') (\<lambda>w''. Inr (n'', c'', h'', w'')))))"

text \<open>
  The slice \<^verbatim>\<open>x[:, :, ::s, ::s]\<close> keeps every \<open>s\<close>-th row and column (a step of zero
  raises), and \<^verbatim>\<open>torch.concat((x, torch.zeros_like(x)), dim=1)\<close> doubles the channels.
\<close>

definition slice_len :: "nat \<Rightarrow> nat \<Rightarrow> nat" where
  "slice_len h s = (h + s - 1) div s"

fun subsample :: "nat \<Rightarrow> fmap \<Rightarrow> error + fmap" where
  "subsample s (n, c, h, w) =
     (if s = 0 then Inl Slice_step_zero else Inr (n, c, slice_len h s, slice_len w s))"

fun concat_zeros :: "fmap \<Rightarrow> fmap" where
  "concat_zeros (n, c, h, w) = (n, c + c, h, w)"

section \<open>The blocks\<close>

text \<open>
  Every block class keeps its main path in \<^verbatim>\<open>self.seq\<close> and its shortcut in
  \<^verbatim>\<open>self.downsample\<close>. In \<open>ResBlock\<close> and \<open>ResNextBlock\<close> the shortcut is a module:
  \<^verbatim>\<open>nn.Identity()\<close> or an \<^verbatim>\<open>nn.Sequential\<close>. In \<open>ResBottleNeckBlock\<close> and
  \<open>PreActResBlock\<close> it is \<^verbatim>\<open>nn.Identity()\<close> or the block's bound method
  \<^verbatim>\<open>_identitymap\<close>. The fields of a record carry the class's initials, since two
  records cannot share a field name.
\<close>

datatype projection = Module layer | Sequential "layer list"

datatype padding_map = Module_Identity | identitymap

fun projection_forward :: "bool \<Rightarrow> projection \<Rightarrow> fmap \<Rightarrow> error + fmap" where
  "projection_forward training (Module l) x = layer_forward training l x"
| "projection_forward training (Sequential ls) x = Sequential_forward training ls x"

subsection \<open>ResBlock\<close>

record ResBlock =
  rb_is_downsample :: bool
  rb_seq :: "layer list"
  rb_downsample :: projection

definition ResBlock_init :: "nat \<Rightarrow> nat \<Rightarrow> bool \<Rightarrow> error + ResBlock" where
  "ResBlock_init in_channel out_channel is_downsample =
     (let strd = (if is_downsample then 2 else 1) in
      bindE (Conv2d_init in_channel out_channel 3 strd 1 1 False) (\<lambda>conv1.
      bindE (Conv2d_init out_channel out_channel 3 1 1 1 False) (\<lambda>conv2.
      bindE (if is_downsample
             then bindE (Conv2d_init in_channel out_channel 1 strd 0 1 False) (\<lambda>conv3.
                    Inr (Sequential [conv3, BatchNorm2d out_channel]))
             else Inr (Module Identity)) (\<lambda>d.
      Inr \<lparr>rb_is_downsample = is_downsample,
           rb_seq = [conv1, BatchNorm2d out_channel, ReLU, conv2, BatchNorm2d out_channel],
           rb_downsample = d\<rparr>))))"

definition ResBlock_main :: "bool \<Rightarrow> ResBlock \<Rightarrow> fmap \<Rightarrow> error + fmap" where
  "ResBlock_main training b x = Sequential_forward training (rb_seq b) x"

definition ResBlock_shortcut :: "bool \<Rightarrow> ResBlock \<Rightarrow> fmap \<Rightarrow> error + fmap" where
  "ResBlock_shortcut training b x = projection_forward training (rb_downsample b) x"

definition ResBlock_forward :: "bool \<Rightarrow> ResBlock \<Rightarrow> fmap \<Rightarrow> error + fmap" where
  "ResBlock_forward training b x =
     bindE (ResBlock_main training b x) (\<lambda>y.
     bindE (ResBlock_shortcut training b x) (\<lambda>z.
     bindE (add_shapes y z) (layer_forward training ReLU)))"

subsection \<open>ResBottleNeckBlock\<close>

record ResBottleNeckBlock =
  bn_stride :: nat
  bn_in_channel :: nat
  bn_out_channel :: nat
  bn_seq :: "layer list"
  bn_downsample :: padding_map

definition ResBottleNeckBlock_init ::
  "nat \<Rightarrow> nat \<Rightarrow> bool \<Rightarrow> nat option \<Rightarrow> error + ResBottleNeckBlock" where
  "ResBottleNeckBlock_init in_channel out_channel is_downsample strd =
     (let s = (case strd of None \<Rightarrow> (if is_downsample then 2 else 1) | Some v \<Rightarrow> v);
          mid_channel = out_channel div 4 in
      bindE (Conv2d_init in_channel mid_channel 1 1 0 1 False) (\<lambda>conv1.
      bindE (Conv2d_init mid_channel mid_channel 3 s 1 1 False) (\<lambda>conv2.
      bindE (Conv2d_init mid_channel out_channel 1 1 0 1 False) (\<lambda>conv3.
      Inr \<lparr>bn_stride = s, bn_in_channel = in_channel, bn_out_channel = out_channel,
           bn_seq = [conv1, BatchNorm2d mid_channel, ReLU,
                     conv2, BatchNorm2d mid_channel, ReLU,
                     conv3, BatchNorm2d out_channel],
           bn_downsample = (if is_downsample then identitymap else Module_Identity)\<rparr>))))"

text \<open>The loop \<^verbatim>\<open>for _ in range(k): x = torch.concat((x, torch.zeros_like(x)), dim=1)\<close>.\<close>

fun concat_loop :: "nat \<Rightarrow> fmap \<Rightarrow> fmap" where
  "concat_loop 0 x = x"
| "concat_loop (Suc k) x = concat_loop k (concat_zeros x)"

definition ResBottleNeckBlock_identitymap :: "ResBottleNeckBlock \<Rightarrow> fmap \<Rightarrow> error + fmap" where
  "ResBottleNeckBlock_identitymap b x =
     bindE (subsample (bn_stride b) x) (\<lambda>y.
       if bn_in_channel b = 0 then Inl ZeroDivisionError
       else let dim = bn_out_channel b div bn_in_channel b in
            Inr (concat_loop (dim div 2) y))"

definition ResBottleNeckBlock_main :: "bool \<Rightarrow> ResBottleNeckBlock \<Rightarrow> fmap \<Rightarrow> error + fmap" where
  "ResBottleNeckBlock_main training b x = Sequential_forward training (bn_seq b) x"

definition ResBottleNeckBlock_shortcut ::
  "bool \<Rightarrow> ResBottleNeckBlock \<Rightarrow> fmap \<Rightarrow> error + fmap" where
  "ResBottleNeckBlock_shortcut training b x =
     (case bn_downsample b of
        Module_Identity \<Rightarrow> layer_forward training Identity x
      | identitymap \<Rightarrow> ResBottleNeckBlock_identitymap b x)"

definition ResBottleNeckBlock_forward ::
  "bool \<Rightarrow> ResBottleNeckBlock \<Rightarrow> fmap \<Rightarrow> error + fmap" where
  "ResBottleNeckBlock_forward training b x =
     bindE (ResBottleNeckBlock_main training b x) (\<lambda>y.
     bindE (ResBottleNeckBlock_shortcut training b x) (\<lambda>z.
     bindE (add_shapes y z) (layer_forward training ReLU)))"

subsection \<open>PreActResBlock\<close>

record PreActResBlock =
  pa_seq :: "layer list"
  pa_downsample :: padding_map

definition PreActResBlock_init :: "nat \<Rightarrow> nat \<Rightarrow> bool \<Rightarrow> error + PreActResBlock" where
  "PreActResBlock_init in_channel out_channel is_downsample =
     (let strd = (if is_downsample then 2 else 1) in
      bindE (Conv2d_init in_channel out_channel 3 strd 1 1 False) (\<lambda>conv1.
      bindE (Conv2d_init out_channel out_channel 3 1 1 1 False) (\<lambda>conv2.
      Inr \<lparr>pa_seq = [BatchNorm2d in_channel, ReLU, conv1,
                     BatchNorm2d out_channel, ReLU, conv2],
           pa_downsample = (if is_downsample then identitymap else Module_Identity)\<rparr>)))"

definition PreActResBlock_identitymap :: "fmap \<Rightarrow> error + fmap" where
  "PreActResBlock_identitymap x = bindE (subsample 2 x) (\<lambda>y. Inr (concat_zeros y))"

definition PreActResBlock_main :: "bool \<Rightarrow> PreActResBlock \<Rightarrow> fmap \<Rightarrow> error + fmap" where
  "PreActResBlock_main training b x = Sequential_forward training (pa_seq b) x"

definition PreActResBlock_shortcut :: "bool \<Rightarrow> PreActResBlock \<Rightarrow> fmap \<Rightarrow> error + fmap" where
  "PreActResBlock_shortcut training b x =
     (case pa_downsample b of
        Module_Identity \<Rightarrow> layer_forward training Identity x
      | identitymap \<Rightarrow> PreActResBlock_identitymap x)"

definition PreActResBlock_forward :: "bool \<Rightarrow> PreActResBlock \<Rightarrow> fmap \<Rightarrow> error + fmap" where
  "PreActResBlock_forward training b x =
     bindE (PreActResBlock_main training b x) (\<lambda>y.
     bindE (PreActResBlock_shortcut training b x) (\<lambda>z. add_shapes y z))"

subsection \<open>ResNextBlock\<close>

record ResNextBlock =
  nx_seq :: "layer list"
  nx_downsample :: projection

definition ResNextBlock_init ::
  "nat \<Rightarrow> nat \<Rightarrow> nat \<Rightarrow> nat \<Rightarrow> bool \<Rightarrow> nat option \<Rightarrow> error + ResNextBlock" where
  "ResNextBlock_init in_channel inner_channel out_channel cardinality is_downsample strd =
     (let s = (case strd of None \<Rightarrow> (if is_downsample then 2 else 1) | Some v \<Rightarrow> v) in
      bindE (Conv2d_init in_channel inner_channel 1 1 0 1 False) (\<lambda>conv1.
      bindE (Conv2d_init inner_channel inner_channel 3 s 1 cardinality False) (\<lambda>conv2.
      bindE (Conv2d_init inner_channel out_channel 1 1 0 1 False) (\<lambda>conv3.
      bindE (if is_downsample
             then bindE (Conv2d_init in_channel out_channel 1 s 0 1 False) (\<lambda>conv4.
                    Inr (Sequential [conv4, BatchNorm2d out_channel]))
             else Inr (Module Identity)) (\<lambda>d.
      Inr \<lparr>nx_seq = [conv1, BatchNorm2d inner_channel, ReLU,
                     conv2, BatchNorm2d inner_channel, ReLU,
                     conv3, BatchNorm2d out_channel],
           nx_downsample = d\<rparr>)))))"

definition ResNextBlock_main :: "bool \<Rightarrow> ResNextBlock \<Rightarrow> fmap \<Rightarrow> error + fmap" where
  "ResNextBlock_main training b x = Sequential_forward training (nx_seq b) x"

definition ResNextBlock_shortcut :: "bool \<Rightarrow> ResNextBlock \<Rightarrow> fmap \<Rightarrow> error + fmap" where
  "ResNextBlock_shortcut training b x = projection_forward training (nx_downsample b) x"

definition ResNextBlock_forward :: "bool \<Rightarrow> ResNextBlock \<Rightarrow> fmap \<Rightarrow> error + fmap" where
  "ResNextBlock_forward training b x =
     bindE (ResNextBlock_main training b x) (\<lambda>y.
     bindE (ResNextBlock_shortcut training b x) (\<lambda>z.
     bindE (add_shapes y z) (layer_forward training ReLU)))"

subsection \<open>ConvNeXtblock\<close>

record ConvNeXtblock =
  cx_depth_wise :: layer
  cx_norm :: layer
  cx_point_wise1 :: layer
  cx_gelu :: layer
  cx_point_wise2 :: layer

definition ConvNeXtblock_init :: "nat \<Rightarrow> error + ConvNeXtblock" where
  "ConvNeXtblock_init channel =
     bindE (Conv2d_init channel channel 7 1 3 channel True) (\<lambda>dw.
     bindE (Conv2d_init channel (channel * 4) 1 1 0 1 True) (\<lambda>pw1.
     bindE (Conv2d_init (channel * 4) channel 1 1 0 1 True) (\<lambda>pw2.
     Inr \<lparr>cx_depth_wise = dw, cx_norm = LayerNorm channel, cx_point_wise1 = pw1,
          cx_gelu = GELU, cx_point_wise2 = pw2\<rparr>)))"

text \<open>\<^verbatim>\<open>x.permute(0, 2, 3, 1)\<close> and \<^verbatim>\<open>x.permute(0, 3, 1, 2)\<close> on a shape.\<close>

fun permute_0231 :: "fmap \<Rightarrow> fmap" where
  "permute_0231 (n, c, h, w) = (n, h, w, c)"

fun permute_0312 :: "fmap \<Rightarrow> fmap" where
  "permute_0312 (n, h, w, c) = (n, c, h, w)"

definition ConvNeXtblock_main :: "bool \<Rightarrow> ConvNeXtblock \<Rightarrow> fmap \<Rightarrow> error + fmap" where
  "ConvNeXtblock_main training b x =
     bindE (layer_forward training (cx_depth_wise b) x) (\<lambda>x1.
     bindE (layer_forward training (cx_norm b) (permute_0231 x1)) (\<lambda>x2.
     bindE (layer_forward training (cx_point_wise1 b) (permute_0312 x2)) (\<lambda>x3.
     bindE (layer_forward training (cx_gelu b) x3) (\<lambda>x4.
     layer_forward training (cx_point_wise2 b) x4))))"

definition ConvNeXtblock_forward :: "bool \<Rightarrow> ConvNeXtblock \<Rightarrow> fmap \<Rightarrow> error + fmap" where
  "ConvNeXtblock_forward training b x =
     bindE (ConvNeXtblock_main training b x) (\<lambda>y. add_shapes y x)"

section \<open>The six networks\<close>

text \<open>
  The six network classes have the same fields and the same two methods: \<^verbatim>\<open>self.seq\<close>
  (an \<^verbatim>\<open>nn.Sequential\<close> of layers and blocks), \<^verbatim>\<open>self.flat\<close> (always \<^verbatim>\<open>nn.Flatten()\<close>) and
  \<^verbatim>\<open>self.out\<close> (an \<^verbatim>\<open>nn.Linear\<close>, given by its two feature counts). One record holds them.
\<close>

datatype net_module =
    Lay layer
  | RB ResBlock
  | BN ResBottleNeckBlock
  | PA PreActResBlock
  | NX ResNextBlock
  | CX ConvNeXtblock

record network =
  net_seq :: "net_module list"
  net_out :: "nat \<times> nat"

fun module_forward :: "bool \<Rightarrow> net_module \<Rightarrow> fmap \<Rightarrow> error + fmap" where
  "module_forward training (Lay l) x = layer_forward training l x"
| "module_forward training (RB b) x = ResBlock_forward training b x"
| "module_forward training (BN b) x = ResBottleNeckBlock_forward training b x"
| "module_forward training (PA b) x = PreActResBlock_forward training b x"
| "module_forward training (NX b) x = ResNextBlock_forward training b x"
| "module_forward training (CX b) x = ConvNeXtblock_forward training b x"

fun seq_forward :: "bool \<Rightarrow> net_module list \<Rightarrow> fmap \<Rightarrow> error + fmap" where
  "seq_forward training [] x = Inr x"
| "seq_forward training (m # ms) x =
     bindE (module_forward training m x) (seq_forward training ms)"

definition forward :: "bool \<Rightarrow> network \<Rightarrow> fmap \<Rightarrow> error + vec" where
  "forward training net x =
     bindE (seq_forward training (net_seq net) x) (\<lambda>y.
       Linear_forward (net_out net) (Flatten_forward y))"

definition extract_features :: "bool \<Rightarrow> network \<Rightarrow> fmap \<Rightarrow> error + vec" where
  "extract_features training net x =
     bindE (seq_forward training (net_seq net) x) (\<lambda>y. Inr (Flatten_forward y))"

text \<open>Building one entry of an \<^verbatim>\<open>nn.Sequential\<close>: a layer or a block.\<close>

definition lay :: "error + layer \<Rightarrow> error + net_module" where
  "lay m = bindE m (\<lambda>l. Inr (Lay l))"

definition rb :: "error + ResBlock \<Rightarrow> error + net_module" where
  "rb m = bindE m (\<lambda>b. Inr (RB b))"

definition bn :: "error + ResBottleNeckBlock \<Rightarrow> error + net_module" where
  "bn m = bindE m (\<lambda>b. Inr (BN b))"

definition pa :: "error + PreActResBlock \<Rightarrow> error + net_module" where
  "pa m = bindE m (\<lambda>b. Inr (PA b))"

definition nx :: "error + ResNextBlock \<Rightarrow> error + net_module" where
  "nx m = bindE m (\<lambda>b. Inr (NX b))"

definition cx :: "error + ConvNeXtblock \<Rightarrow> error + net_module" where
  "cx m = bindE m (\<lambda>b. Inr (CX b))"

definition make_network :: "(error + net_module) list \<Rightarrow> nat \<times> nat \<Rightarrow> error + network" where
  "make_network ms l = bindE (sequenceE ms) (\<lambda>s. Inr \<lparr>net_seq = s, net_out = l\<rparr>)"

definition Resnet18 :: "nat \<Rightarrow> error + network" where
  "Resnet18 class_num = make_network
     [lay (Conv2d_init 3 64 3 1 1 1 False),
      lay (Inr (BatchNorm2d 64)),
      lay (Inr ReLU),
      rb (ResBlock_init 64 64 False),
      rb (ResBlock_init 64 64 False),
      rb (ResBlock_init 64 128 True),
      rb (ResBlock_init 128 128 False),
      rb (ResBlock_init 128 256 True),
      rb (ResBlock_init 256 256 False),
      rb (ResBlock_init 256 512 True),
      rb (ResBlock_init 512 512 False),
      lay (Inr (AdaptiveAvgPool2d 1 1))]
     (512, class_num)"

definition ResBottleNecknet18 :: "nat \<Rightarrow> error + network" where
  "ResBottleNecknet18 class_num = make_network
     [lay (Conv2d_init 3 64 3 1 1 1 False),
      lay (Inr (BatchNorm2d 64)),
      lay (Inr ReLU),
      bn (ResBottleNeckBlock_init 64 256 True (Some 1)),
      bn (ResBottleNeckBlock_init 256 256 False None),
      bn (ResBottleNeckBlock_init 256 512 True None),
      bn (ResBottleNeckBlock_init 512 512 False None),
      bn (ResBottleNeckBlock_init 512 1024 True None),
      bn (ResBottleNeckBlock_init 1024 1024 False None),
      bn (ResBottleNeckBlock_init 1024 2048 True None),
      bn (ResBottleNeckBlock_init 2048 2048 False None),
      lay (Inr (AvgPool2d 4))]
     (2048, class_num)"

definition ResBottleNecknet50 :: "nat \<Rightarrow> error + network" where
  "ResBottleNecknet50 class_num = make_network
     [lay (Conv2d_init 3 64 3 1 1 1 False),
      lay (Inr (BatchNorm2d 64)),
      lay (Inr ReLU),
      bn (ResBottleNeckBlock_init 64 256 True (Some 1)),
      bn (ResBottleNeckBlock_init 256 256 False None),
      bn (ResBottleNeckBlock_init 256 256 False None),
      bn (ResBottleNeckBlock_init 256 512 True None),
      bn (ResBottleNeckBlock_init 512 512 False None),
      bn (ResBottleNeckBlock_init 512 512 False None),
      bn (ResBottleNeckBlock_init 512 512 False None),
      bn (ResBottleNeckBlock_init 512 1024 True None),
      bn (ResBottleNeckBlock_init 1024 1024 False None),
      bn (ResBottleNeckBlock_init 1024 1024 False None),
      bn (ResBottleNeckBlock_init 1024 1024 False None),
      bn (ResBottleNeckBlock_init 1024 1024 False None),
      bn (ResBottleNeckBlock_init 1024 1024 False None),
      bn (ResBottleNeckBlock_init 1024 2048 True None),
      bn (ResBottleNeckBlock_init 2048 2048 False None),
      bn (ResBottleNeckBlock_init 2048 2048 False None),
      lay (Inr (AvgPool2d 4))]
     (2048, class_num)"

definition PreActResNet :: "nat \<Rightarrow> error + network" where
  "PreActResNet class_num = make_network
     [lay (Conv2d_init 3 64 3 1 1 1 False),
      lay (Inr ReLU),
      pa (PreActResBlock_init 64 64 False),
      pa (PreActResBlock_init 64 64 False),
      pa (PreActResBlock_init 64 128 True),
      pa (PreActResBlock_init 128 128 False),
      pa (PreActResBlock_init 128 256 True),
      pa (PreActResBlock_init 256 256 False),
      pa (PreActResBlock_init 256 512 True),
      pa (PreActResBlock_init 512 512 False),
      lay (Inr ReLU),
      lay (Inr (AvgPool2d 4))]
     (512, class_num)"

definition ResNext :: "nat \<Rightarrow> error + network" where
  "ResNext class_num = make_network
     [lay (Conv2d_init 3 64 3 1 1 1 False),
      lay (Inr (BatchNorm2d 64)),
      lay (Inr ReLU),
      nx (ResNextBlock_init 64 128 256 32 True (Some 1)),
      nx (ResNextBlock_init 256 128 256 32 False None),
      nx (ResNextBlock_init 256 256 512 32 True None),
      nx (ResNextBlock_init 512 256 512 32 False None),
      nx (ResNextBlock_init 512 512 1024 32 True None),
      nx (ResNextBlock_init 1024 512 1024 32 False None),
      nx (ResNextBlock_init 1024 1024 2048 32 True None),
      nx (ResNextBlock_init 2048 1024 2048 32 False None),
      lay (Inr (AvgPool2d 4))]
     (2048, class_num)"

definition ConvNeXt :: "nat \<Rightarrow> error + network" where
  "ConvNeXt class_num = make_network
     [lay (Conv2d_init 3 96 2 2 0 1 False),
      cx (ConvNeXtblock_init 96),
      cx (ConvNeXtblock_init 96),
      lay (Conv2d_init 96 192 2 2 0 1 True),
      cx (ConvNeXtblock_init 192),
      cx (ConvNeXtblock_init 192),
      lay (Conv2d_init 192 384 2 2 0 1 True),
      cx (ConvNeXtblock_init 384),
      cx (ConvNeXtblock_init 384),
      cx (ConvNeXtblock_init 384),
      cx (ConvNeXtblock_init 384),
      cx (ConvNeXtblock_init 384),
      cx (ConvNeXtblock_init 384),
      lay (Conv2d_init 384 768 2 2 0 1 True),
      cx (ConvNeXtblock_init 768),
      cx (ConvNeXtblock_init 768),
      lay (Inr (AvgPool2d 2))]
     (768, class_num)"

text \<open>
  The six networks in the order basic-18, bottleneck-18, bottleneck-50, pre-activation,
  grouped-32, modern.
\<close>

definition networks :: "nat \<Rightarrow> (error + network) list" where
  "networks class_num =
     [Resnet18 class_num, ResBottleNecknet18 class_num, ResBottleNecknet50 class_num,
      PreActResNet class_num, ResNext class_num, ConvNeXt class_num]"

text \<open>The Python expression \<^verbatim>\<open>Net(class_num).forward(x)\<close>, and the same for the features.\<close>

definition construct_forward :: "bool \<Rightarrow> error + network \<Rightarrow> fmap \<Rightarrow> error + vec" where
  "construct_forward training init x = bindE init (\<lambda>net. forward training net x)"

definition construct_extract :: "bool \<Rightarrow> error + network \<Rightarrow> fmap \<Rightarrow> error + vec" where
  "construct_extract training init x = bindE init (\<lambda>net. extract_features training net x)"

section \<open>Observing the blocks of a network\<close>

text \<open>
  \<open>module_inputs\<close> lists every entry of an \<^verbatim>\<open>nn.Sequential\<close> that is reached, with the
  shape it receives. \<open>residual_operands\<close> gives the two operands of a block's residual
  sum, the main path first (a plain layer has none). In \<open>ConvNeXtblock.forward\<close> the
  second operand is the input itself (\<^verbatim>\<open>residual = x\<close>).
\<close>

fun module_inputs :: "bool \<Rightarrow> net_module list \<Rightarrow> fmap \<Rightarrow> (net_module \<times> fmap) list" where
  "module_inputs training [] x = []"
| "module_inputs training (m # ms) x =
     (m, x) # (case module_forward training m x of
                 Inl e \<Rightarrow> []
               | Inr y \<Rightarrow> module_inputs training ms y)"

fun residual_operands ::
  "bool \<Rightarrow> net_module \<Rightarrow> fmap \<Rightarrow> ((error + fmap) \<times> (error + fmap)) option" where
  "residual_operands training (Lay l) x = None"
| "residual_operands training (RB b) x =
     Some (ResBlock_main training b x, ResBlock_shortcut training b x)"
| "residual_operands training (BN b) x =
     Some (ResBottleNeckBlock_main training b x, ResBottleNeckBlock_shortcut training b x)"
| "residual_operands training (PA b) x =
     Some (PreActResBlock_main training b x, PreActResBlock_shortcut training b x)"
| "residual_operands training (NX b) x =
     Some (ResNextBlock_main training b x, ResNextBlock_shortcut training b x)"
| "residual_operands training (CX b) x =
     Some (ConvNeXtblock_main training b x, Inr x)"

fun is_block :: "net_module \<Rightarrow> bool" where
  "is_block (Lay l) = False"
| "is_block m = True"

text \<open>
  A block is flagged as downsampling when it was built with \<^verbatim>\<open>is_downsample=True\<close>.
  \<open>ResBlock\<close> keeps the flag; the other classes keep its effect, a shortcut that is
  not \<^verbatim>\<open>nn.Identity()\<close>. A \<open>ConvNeXtblock\<close> has no such flag.
\<close>

fun flagged :: "net_module \<Rightarrow> bool" where
  "flagged (Lay l) = False"
| "flagged (RB b) = rb_is_downsample b"
| "flagged (BN b) = (bn_downsample b = identitymap)"
| "flagged (PA b) = (pa_downsample b = identitymap)"
| "flagged (NX b) = (nx_downsample b \<noteq> Module Identity)"
| "flagged (CX b) = False"

text \<open>The stride of a block: the product of the strides of its main path's convolutions.\<close>

fun conv_stride :: "layer \<Rightarrow> nat" where
  "conv_stride (Conv2d ci co k s p g b) = s"
| "conv_stride l = 1"

fun main_layers :: "net_module \<Rightarrow> layer list" where
  "main_layers (Lay l) = [l]"
| "main_layers (RB b) = rb_seq b"
| "main_layers (BN b) = bn_seq b"
| "main_layers (PA b) = pa_seq b"
| "main_layers (NX b) = nx_seq b"
| "main_layers (CX b) =
     [cx_depth_wise b, cx_norm b, cx_point_wise1 b, cx_gelu b, cx_point_wise2 b]"

definition block_stride :: "net_module \<Rightarrow> nat" where
  "block_stride m = prod_list (map conv_stride (main_layers m))"

fun spatial :: "fmap \<Rightarrow> nat \<times> nat" where
  "spatial (n, c, h, w) = (h, w)"

fun halved :: "nat \<times> nat \<Rightarrow> nat \<times> nat" where
  "halved (h, w) = (h div 2, w div 2)"

text \<open>The output of \<^verbatim>\<open>self.seq(x)\<close> for a freshly built network.\<close>

definition construct_seq :: "bool \<Rightarrow> error + network \<Rightarrow> fmap \<Rightarrow> error + fmap" where
  "construct_seq training init x = bindE init (\<lambda>net. seq_forward training (net_seq net) x)"

text \<open>
  The operands of every residual sum agree: every entry of the network is reached, and
  at each block both operands are computed and have the same shape.
\<close>

definition operands_agree :: "bool \<Rightarrow> network \<Rightarrow> fmap \<Rightarrow> bool" where
  "operands_agree training net x0 \<longleftrightarrow>
     length (module_inputs training (net_seq net) x0) = length (net_seq net) \<and>
     (\<forall>(m, x) \<in> set (module_inputs training (net_seq net) x0).
        \<forall>p. residual_operands training m x = Some p \<longrightarrow> (\<exists>s. p = (Inr s, Inr s)))"

text \<open>
  \<open>block_steps\<close> lists the blocks of an \<^verbatim>\<open>nn.Sequential\<close> that return, each with its input
  and its output. \<open>resolution_trace\<close> reads off, for every block of a freshly built
  network, the flag, the stride, and the height and width before and after the block.
\<close>

fun block_steps :: "bool \<Rightarrow> net_module list \<Rightarrow> fmap \<Rightarrow> (net_module \<times> fmap \<times> fmap) list" where
  "block_steps training [] x = []"
| "block_steps training (m # ms) x =
     (case module_forward training m x of
        Inl e \<Rightarrow> []
      | Inr y \<Rightarrow> (if is_block m then [(m, x, y)] else []) @ block_steps training ms y)"

fun resolution_step ::
  "net_module \<times> fmap \<times> fmap \<Rightarrow> bool \<times> nat \<times> (nat \<times> nat) \<times> (nat \<times> nat)" where
  "resolution_step (m, x, y) = (flagged m, block_stride m, spatial x, spatial y)"

definition resolution_trace ::
  "bool \<Rightarrow> error + network \<Rightarrow> fmap \<Rightarrow> (bool \<times> nat \<times> (nat \<times> nat) \<times> (nat \<times> nat)) list" where
  "resolution_trace training init x =
     (case init of
        Inl e \<Rightarrow> []
      | Inr net \<Rightarrow> map resolution_step (block_steps training (net_seq net) x))"

text \<open>The shortcut module of a \<open>ResBlock\<close> or a \<open>ResNextBlock\<close>.\<close>

fun projection_of :: "net_module \<Rightarrow> projection option" where
  "projection_of (RB b) = Some (rb_downsample b)"
| "projection_of (NX b) = Some (nx_downsample b)"
| "projection_of m = None"

definition shortcut_trace ::
  "bool \<Rightarrow> error + network \<Rightarrow> fmap \<Rightarrow> (projection option \<times> fmap \<times> fmap) list" where
  "shortcut_trace training init x =
     (case init of
        Inl e \<Rightarrow> []
      | Inr net \<Rightarrow>
          map (\<lambda>(m, a, b). (projection_of m, a, b)) (block_steps training (net_seq net) x))"

text \<open>
  Two readings of "a downsampling block halves the resolution" on one entry of a
  \<open>resolution_trace\<close>: by the flag alone, and by the flag together with the stride.
\<close>

fun halves_when_flagged :: "bool \<times> nat \<times> (nat \<times> nat) \<times> (nat \<times> nat) \<Rightarrow> bool" where
  "halves_when_flagged (f, s, a, b) = (b = (if f then halved a else a))"

fun halves_when_strided :: "bool \<times> nat \<times> (nat \<times> nat) \<times> (nat \<times> nat) \<Rightarrow> bool" where
  "halves_when_strided (f, s, a, b) = (b = (if f \<and> s = 2 then halved a else a))"

text \<open>
  On one entry of a \<open>shortcut_trace\<close>: the shortcut module is \<^verbatim>\<open>nn.Identity()\<close> exactly
  when the block's output shape is its input shape.
\<close>

fun identity_iff_same_shape :: "projection option \<times> fmap \<times> fmap \<Rightarrow> bool" where
  "identity_iff_same_shape (None, x, y) = True"
| "identity_iff_same_shape (Some q, x, y) = ((q = Module Identity) = (y = x))"

text \<open>
  The channel pairs that claim C4 is about: \<^verbatim>\<open>out_channel % in_channel != 0\<close>, or a ratio
  that is not a power of two.
\<close>

definition power_of_two :: "nat \<Rightarrow> bool" where
  "power_of_two r \<longleftrightarrow> (\<exists>k \<in> {0..r}. r = 2 ^ k)"

definition unsuited_pair :: "nat \<Rightarrow> nat \<Rightarrow> bool" where
  "unsuited_pair in_channel out_channel \<longleftrightarrow>
     out_channel mod in_channel \<noteq> 0 \<or> \<not> power_of_two (out_channel div in_channel)"

section \<open>The values of a ConvNeXtblock\<close>

text \<open>
  The claim that a fresh \<open>ConvNeXtblock\<close> is the identity is about the numbers in the
  tensors, so this block is also followed by value. The numbers are float32: a finite
  value, plus or minus infinity, or NaN. The sum and the product follow the IEEE rules
  for the special values (\<open>0 * inf\<close> and \<open>inf - inf\<close> are NaN, NaN is absorbing); on
  finite operands they round the exact result with \<open>rnd\<close>, the rounding of float32,
  which also maps a result beyond the largest float to an infinity. The rounding is a
  parameter: the theorems ask of it only that it leaves 0 and the values of the input
  as they are. Two floats are equal (\<^verbatim>\<open>==\<close>) when they are the same finite value or the
  same infinity; NaN equals nothing.
\<close>

datatype f32 = Finite real | PInf | NInf | NaN


fun fmul :: "(real \<Rightarrow> f32) \<Rightarrow> f32 \<Rightarrow> f32 \<Rightarrow> f32" where
  "fmul rnd NaN y = NaN"
| "fmul rnd x NaN = NaN"
| "fmul rnd (Finite a) (Finite b) = rnd (a * b)"
| "fmul rnd (Finite a) PInf = (if a = 0 then NaN else if 0 < a then PInf else NInf)"
| "fmul rnd (Finite a) NInf = (if a = 0 then NaN else if 0 < a then NInf else PInf)"
| "fmul rnd PInf (Finite b) = (if b = 0 then NaN else if 0 < b then PInf else NInf)"
| "fmul rnd NInf (Finite b) = (if b = 0 then NaN else if 0 < b then NInf else PInf)"
| "fmul rnd PInf PInf = PInf"
| "fmul rnd PInf NInf = NInf"
| "fmul rnd NInf PInf = NInf"
| "fmul rnd NInf NInf = PInf"

fun fadd :: "(real \<Rightarrow> f32) \<Rightarrow> f32 \<Rightarrow> f32 \<Rightarrow> f32" where
  "fadd rnd NaN y = NaN"
| "fadd rnd x NaN = NaN"
| "fadd rnd (Finite a) (Finite b) = rnd (a + b)"
| "fadd rnd (Finite a) PInf = PInf"
| "fadd rnd (Finite a) NInf = NInf"
| "fadd rnd PInf (Finite b) = PInf"
| "fadd rnd NInf (Finite b) = NInf"
| "fadd rnd PInf PInf = PInf"
| "fadd rnd PInf NInf = NaN"
| "fadd rnd NInf PInf = NaN"
| "fadd rnd NInf NInf = NInf"


text \<open>
  A tensor is its shape and its elements, indexed (batch, channel, row, column). The
  state of a layer holds its parameters: a convolution's weight, indexed (out channel,
  in channel within the group, row, column), and its optional bias; a layer
  normalisation's weight and bias.
\<close>

type_synonym elements = "nat \<Rightarrow> nat \<Rightarrow> nat \<Rightarrow> nat \<Rightarrow> f32"

record tensor =
  shp :: fmap
  elt :: elements

datatype state =
    Conv2d_state elements "(nat \<Rightarrow> f32) option"
  | LayerNorm_state "nat \<Rightarrow> f32" "nat \<Rightarrow> f32"
  | Stateless





text \<open>
  The float32 values that \<^verbatim>\<open>depth_wise\<close>, \<^verbatim>\<open>norm\<close>, \<^verbatim>\<open>point_wise1\<close> and \<^verbatim>\<open>gelu\<close> return
  depend on the kernels of the tensor library: how they round, in which order they
  add, how they accumulate a variance. The source fixes none of it, so the library is
  a parameter \<open>lib\<close>, which gives the elements a layer with a given state returns on a
  given input; the shape is that of \<open>layer_forward\<close>. Nothing is assumed of \<open>lib\<close>:
  its values may overflow or be NaN on a finite input.
\<close>

type_synonym library = "layer \<Rightarrow> state \<Rightarrow> tensor \<Rightarrow> elements"

definition library_layer :: "library \<Rightarrow> layer \<Rightarrow> state \<Rightarrow> tensor \<Rightarrow> error + tensor" where
  "library_layer lib l st x =
     bindE (layer_forward False l (shp x)) (\<lambda>sh. Inr \<lparr>shp = sh, elt = lib l st x\<rparr>)"

text \<open>
  The last convolution, \<^verbatim>\<open>point_wise2\<close>, is written out in float arithmetic: the bias,
  then the products of the weights and the inputs of the window, added in index
  order. The input is zero outside the image (padding \<open>p\<close>). With the zero weight and
  bias that \<^verbatim>\<open>__init__\<close> gives this layer every product is \<open>0 * v\<close>, so that another
  order of the sum gives the same result.
\<close>

definition padded :: "nat \<Rightarrow> tensor \<Rightarrow> elements" where
  "padded p x n c a b =
     (case shp x of (N, C, H, W) \<Rightarrow>
        if p \<le> a \<and> a < H + p \<and> p \<le> b \<and> b < W + p then elt x n c (a - p) (b - p)
        else Finite 0)"

definition conv_terms ::
  "(real \<Rightarrow> f32) \<Rightarrow> nat \<Rightarrow> nat \<Rightarrow> nat \<Rightarrow> nat \<Rightarrow> nat \<Rightarrow> nat \<Rightarrow> elements \<Rightarrow> tensor \<Rightarrow>
   nat \<Rightarrow> nat \<Rightarrow> nat \<Rightarrow> nat \<Rightarrow> f32 list" where
  "conv_terms rnd ci co k s p g W x n j a b =
     concat (map (\<lambda>c. concat (map (\<lambda>u. map (\<lambda>v.
       fmul rnd (W j c u v)
         (padded p x n ((j div (co div g)) * (ci div g) + c) (a * s + u) (b * s + v)))
       [0..<k]) [0..<k])) [0..<ci div g])"

definition conv_elt ::
  "(real \<Rightarrow> f32) \<Rightarrow> nat \<Rightarrow> nat \<Rightarrow> nat \<Rightarrow> nat \<Rightarrow> nat \<Rightarrow> nat \<Rightarrow> elements \<Rightarrow>
   (nat \<Rightarrow> f32) option \<Rightarrow> tensor \<Rightarrow> elements" where
  "conv_elt rnd ci co k s p g W B x n j a b =
     foldl (fadd rnd) (case B of None \<Rightarrow> Finite 0 | Some bv \<Rightarrow> bv j)
       (conv_terms rnd ci co k s p g W x n j a b)"

fun Conv2d_value :: "(real \<Rightarrow> f32) \<Rightarrow> layer \<Rightarrow> state \<Rightarrow> tensor \<Rightarrow> error + tensor" where
  "Conv2d_value rnd (Conv2d ci co k s p g b) (Conv2d_state W B) x =
     bindE (layer_forward False (Conv2d ci co k s p g b) (shp x)) (\<lambda>sh.
       Inr \<lparr>shp = sh, elt = conv_elt rnd ci co k s p g W B x\<rparr>)"
| "Conv2d_value rnd l st x = Inl Not_a_convolution"

definition permute_value_0231 :: "tensor \<Rightarrow> tensor" where
  "permute_value_0231 x = \<lparr>shp = permute_0231 (shp x), elt = (\<lambda>n h w c. elt x n c h w)\<rparr>"

definition permute_value_0312 :: "tensor \<Rightarrow> tensor" where
  "permute_value_0312 x = \<lparr>shp = permute_0312 (shp x), elt = (\<lambda>n c h w. elt x n h w c)\<rparr>"

text \<open>The sum of two tensors: an axis of size 1 is read at index 0 (broadcasting).\<close>

definition broadcast_elt :: "tensor \<Rightarrow> elements" where
  "broadcast_elt x n c h w =
     (case shp x of (N, C, H, W) \<Rightarrow>
        elt x (if N = 1 then 0 else n) (if C = 1 then 0 else c)
              (if H = 1 then 0 else h) (if W = 1 then 0 else w))"

definition add_value :: "(real \<Rightarrow> f32) \<Rightarrow> tensor \<Rightarrow> tensor \<Rightarrow> error + tensor" where
  "add_value rnd y x =
     bindE (add_shapes (shp y) (shp x)) (\<lambda>sh.
       Inr \<lparr>shp = sh,
            elt = (\<lambda>n c h w. fadd rnd (broadcast_elt y n c h w) (broadcast_elt x n c h w))\<rparr>)"

text \<open>
  The parameters of a \<open>ConvNeXtblock\<close> when \<^verbatim>\<open>__init__\<close> returns. The library draws the
  weights and biases of the three convolutions at random: they are the arguments.
  \<^verbatim>\<open>nn.LayerNorm\<close> starts with weight 1 and bias 0. The last three lines of \<^verbatim>\<open>__init__\<close>
  overwrite the weight of \<^verbatim>\<open>point_wise2\<close> with zeros, and its bias when it has one.
\<close>

record ConvNeXtblock_state =
  st_depth_wise :: state
  st_norm :: state
  st_point_wise1 :: state
  st_point_wise2 :: state



text \<open>
  \<open>ConvNeXtblock.forward\<close> by value. \<open>ConvNeXtblock_activation\<close> is the tensor that
  reaches \<^verbatim>\<open>point_wise2\<close>: the result of \<^verbatim>\<open>depth_wise\<close>, the two permutations around
  \<^verbatim>\<open>norm\<close>, \<^verbatim>\<open>point_wise1\<close> and \<^verbatim>\<open>gelu\<close>.
\<close>

definition ConvNeXtblock_activation ::
  "library \<Rightarrow> ConvNeXtblock \<Rightarrow> ConvNeXtblock_state \<Rightarrow> tensor \<Rightarrow> error + tensor" where
  "ConvNeXtblock_activation lib b st x =
     bindE (library_layer lib (cx_depth_wise b) (st_depth_wise st) x) (\<lambda>x1.
     bindE (library_layer lib (cx_norm b) (st_norm st) (permute_value_0231 x1)) (\<lambda>x2.
     bindE (library_layer lib (cx_point_wise1 b) (st_point_wise1 st) (permute_value_0312 x2))
       (\<lambda>x3.
     library_layer lib (cx_gelu b) Stateless x3)))"

definition ConvNeXtblock_value ::
  "(real \<Rightarrow> f32) \<Rightarrow> library \<Rightarrow> ConvNeXtblock \<Rightarrow> ConvNeXtblock_state \<Rightarrow> tensor \<Rightarrow>
   error + tensor" where
  "ConvNeXtblock_value rnd lib b st x =
     (let residual = x in
      bindE (ConvNeXtblock_activation lib b st x) (\<lambda>x4.
      bindE (Conv2d_value rnd (cx_point_wise2 b) (st_point_wise2 st) x4) (\<lambda>x5.
      add_value rnd x5 residual)))"






text \<open>
  The number of blocks of a network, and two tests on an entry of a \<open>shortcut_trace\<close>:
  the entry is that of a \<open>ResBlock\<close> or a \<open>ResNextBlock\<close>; its shortcut is
  \<^verbatim>\<open>nn.Identity()\<close>.
\<close>

definition block_count :: "error + network \<Rightarrow> nat" where
  "block_count init =
     (case init of Inl e \<Rightarrow> 0 | Inr net \<Rightarrow> length (filter is_block (net_seq net)))"

fun has_projection :: "projection option \<times> fmap \<times> fmap \<Rightarrow> bool" where
  "has_projection (q, x, y) = (q \<noteq> None)"

fun has_identity :: "projection option \<times> fmap \<times> fmap \<Rightarrow> bool" where
  "has_identity (q, x, y) = (q = Some (Module Identity))"

section \<open>Evaluating the networks on 32 x 32 images\<close>

lemmas init_defs =
  Conv2d_init_def ResBlock_init_def ResBottleNeckBlock_init_def PreActResBlock_init_def
  ResNextBlock_init_def ConvNeXtblock_init_def make_network_def
  lay_def rb_def bn_def pa_def nx_def cx_def

lemmas block_defs =
  ResBlock_forward_def ResBlock_main_def ResBlock_shortcut_def
  ResBottleNeckBlock_forward_def ResBottleNeckBlock_main_def
  ResBottleNeckBlock_shortcut_def ResBottleNeckBlock_identitymap_def
  PreActResBlock_forward_def PreActResBlock_main_def
  PreActResBlock_shortcut_def PreActResBlock_identitymap_def
  ResNextBlock_forward_def ResNextBlock_main_def ResNextBlock_shortcut_def
  ConvNeXtblock_forward_def ConvNeXtblock_main_def
  conv_out_def slice_len_def broadcast_def

lemma concat_loop_shape: "concat_loop k (n, c, h, w) = (n, c * 2 ^ k, h, w)"
  by (induction k arbitrary: c) simp_all

lemma Resnet18_seq_32: "construct_seq tr (Resnet18 k) (N, 3, 32, 32) = Inr (N, 512, 1, 1)"
  by (simp add: construct_seq_def Resnet18_def init_defs block_defs)

lemma ResBottleNecknet18_seq_32:
  "construct_seq tr (ResBottleNecknet18 k) (N, 3, 32, 32) = Inr (N, 2048, 1, 1)"
  by (simp add: construct_seq_def ResBottleNecknet18_def init_defs block_defs concat_loop_shape)

lemma ResBottleNecknet50_seq_32:
  "construct_seq tr (ResBottleNecknet50 k) (N, 3, 32, 32) = Inr (N, 2048, 1, 1)"
  by (simp add: construct_seq_def ResBottleNecknet50_def init_defs block_defs concat_loop_shape)

lemma PreActResNet_seq_32:
  "construct_seq tr (PreActResNet k) (N, 3, 32, 32) = Inr (N, 512, 1, 1)"
  by (simp add: construct_seq_def PreActResNet_def init_defs block_defs)

lemma ResNext_seq_32: "construct_seq tr (ResNext k) (N, 3, 32, 32) = Inr (N, 2048, 1, 1)"
  by (simp add: construct_seq_def ResNext_def init_defs block_defs)

lemma ConvNeXt_seq_32: "construct_seq tr (ConvNeXt k) (N, 3, 32, 32) = Inr (N, 768, 1, 1)"
  by (simp add: construct_seq_def ConvNeXt_def init_defs block_defs)

lemmas seq_32 =
  Resnet18_seq_32 ResBottleNecknet18_seq_32 ResBottleNecknet50_seq_32
  PreActResNet_seq_32 ResNext_seq_32 ConvNeXt_seq_32

text \<open>What \<^verbatim>\<open>self.out\<close> of each network is: the construction never fails.\<close>

lemma networks_out:
  "map (map_sum id net_out) (networks k) =
     [Inr (512, k), Inr (2048, k), Inr (2048, k), Inr (512, k), Inr (2048, k), Inr (768, k)]"
  by (simp add: networks_def Resnet18_def ResBottleNecknet18_def ResBottleNecknet50_def
      PreActResNet_def ResNext_def ConvNeXt_def init_defs)

lemma construct_extract_via_seq:
  "construct_seq tr init x = Inr y \<Longrightarrow> construct_extract tr init x = Inr (Flatten_forward y)"
  by (cases init) (simp_all add: construct_extract_def construct_seq_def extract_features_def)

lemma Resnet18_forward_32: "construct_forward tr (Resnet18 k) (N, 3, 32, 32) = Inr (N, k)"
  by (simp add: construct_forward_def forward_def Resnet18_def init_defs block_defs)

lemma ResBottleNecknet18_forward_32:
  "construct_forward tr (ResBottleNecknet18 k) (N, 3, 32, 32) = Inr (N, k)"
  by (simp add: construct_forward_def forward_def ResBottleNecknet18_def init_defs block_defs
      concat_loop_shape)

lemma ResBottleNecknet50_forward_32:
  "construct_forward tr (ResBottleNecknet50 k) (N, 3, 32, 32) = Inr (N, k)"
  by (simp add: construct_forward_def forward_def ResBottleNecknet50_def init_defs block_defs
      concat_loop_shape)

lemma PreActResNet_forward_32:
  "construct_forward tr (PreActResNet k) (N, 3, 32, 32) = Inr (N, k)"
  by (simp add: construct_forward_def forward_def PreActResNet_def init_defs block_defs)

lemma ResNext_forward_32: "construct_forward tr (ResNext k) (N, 3, 32, 32) = Inr (N, k)"
  by (simp add: construct_forward_def forward_def ResNext_def init_defs block_defs)

lemma ConvNeXt_forward_32: "construct_forward tr (ConvNeXt k) (N, 3, 32, 32) = Inr (N, k)"
  by (simp add: construct_forward_def forward_def ConvNeXt_def init_defs block_defs)

lemmas forward_32 =
  Resnet18_forward_32 ResBottleNecknet18_forward_32 ResBottleNecknet50_forward_32
  PreActResNet_forward_32 ResNext_forward_32 ConvNeXt_forward_32

section \<open>Forward pass and features on 32 x 32 images\<close>

text \<open>
  C1. For every one of the six networks built with any \<open>class_num \<ge> 1\<close>, \<open>forward\<close> on
  an input of shape \<open>[N, 3, 32, 32]\<close> with \<open>N \<ge> 1\<close> returns a tensor of shape
  \<open>[N, class_num]\<close>. The construction succeeds and no layer raises, in training mode
  and in evaluation mode.
\<close>

theorem forward_returns_class_scores:
  assumes "1 \<le> N" and "1 \<le> class_num"
  shows "\<forall>init \<in> set (networks class_num).
           construct_forward training init (N, 3, 32, 32) = Inr (N, class_num)"
  by (simp add: networks_def forward_32)

theorem forward_returns_class_scores_witness:
  "construct_forward True (Resnet18 10) (4, 3, 32, 32) = Inr (4, 10) \<and>
   construct_forward False (ConvNeXt 10) (4, 3, 32, 32) = Inr (4, 10)"
  using forward_returns_class_scores [of 4 10 True] forward_returns_class_scores [of 4 10 False]
  by (simp add: networks_def)

text \<open>
  C8. For the six networks in order, \<open>extract_features\<close> on an input of shape
  \<open>[N, 3, 32, 32]\<close> returns shape \<open>[N, F]\<close> with \<open>F\<close> = 512, 2048, 2048, 512, 2048, 768,
  and \<open>F\<close> is the channel count of the last feature map, whose height and width are 1.
\<close>

theorem extract_features_widths:
  assumes "1 \<le> N"
  shows "map (\<lambda>init. construct_extract training init (N, 3, 32, 32)) (networks class_num) =
           [Inr (N, 512), Inr (N, 2048), Inr (N, 2048), Inr (N, 512), Inr (N, 2048), Inr (N, 768)]
         \<and> map (\<lambda>init. construct_seq training init (N, 3, 32, 32)) (networks class_num) =
           [Inr (N, 512, 1, 1), Inr (N, 2048, 1, 1), Inr (N, 2048, 1, 1),
            Inr (N, 512, 1, 1), Inr (N, 2048, 1, 1), Inr (N, 768, 1, 1)]"
  by (simp add: networks_def seq_32 construct_extract_via_seq [OF Resnet18_seq_32]
      construct_extract_via_seq [OF ResBottleNecknet18_seq_32]
      construct_extract_via_seq [OF ResBottleNecknet50_seq_32]
      construct_extract_via_seq [OF PreActResNet_seq_32]
      construct_extract_via_seq [OF ResNext_seq_32]
      construct_extract_via_seq [OF ConvNeXt_seq_32])

theorem extract_features_widths_witness:
  "map (\<lambda>init. construct_extract True init (1, 3, 32, 32)) (networks 10) =
     [Inr (1, 512), Inr (1, 2048), Inr (1, 2048), Inr (1, 512), Inr (1, 2048), Inr (1, 768)]"
  using extract_features_widths [of 1 True 10] by simp

section \<open>A fresh ConvNeXtblock and the identity\<close>















section \<open>The operands of the residual sums\<close>

lemma Resnet18_operands:
  "\<exists>net. Resnet18 k = Inr net \<and> operands_agree tr net (N, 3, 32, 32)"
  by (simp add: operands_agree_def Resnet18_def init_defs block_defs)

lemma ResBottleNecknet18_operands:
  "\<exists>net. ResBottleNecknet18 k = Inr net \<and> operands_agree tr net (N, 3, 32, 32)"
  by (simp add: operands_agree_def ResBottleNecknet18_def init_defs block_defs concat_loop_shape)

lemma ResBottleNecknet50_operands:
  "\<exists>net. ResBottleNecknet50 k = Inr net \<and> operands_agree tr net (N, 3, 32, 32)"
  by (simp add: operands_agree_def ResBottleNecknet50_def init_defs block_defs concat_loop_shape)

lemma PreActResNet_operands:
  "\<exists>net. PreActResNet k = Inr net \<and> operands_agree tr net (N, 3, 32, 32)"
  by (simp add: operands_agree_def PreActResNet_def init_defs block_defs)

lemma ResNext_operands:
  "\<exists>net. ResNext k = Inr net \<and> operands_agree tr net (N, 3, 32, 32)"
  by (simp add: operands_agree_def ResNext_def init_defs block_defs)

lemma ConvNeXt_operands:
  "\<exists>net. ConvNeXt k = Inr net \<and> operands_agree tr net (N, 3, 32, 32)"
  by (simp add: operands_agree_def ConvNeXt_def init_defs block_defs)

text \<open>
  C3. For every block instance as configured inside the six networks, fed the shape
  that reaches it when the network runs on \<open>[N, 3, 32, 32]\<close>, the main-path output and
  the shortcut output are both computed and have exactly the same shape before the
  residual sum. Every entry of every network is reached.
\<close>

theorem residual_operands_have_equal_shape:
  assumes "1 \<le> N"
  shows "\<forall>init \<in> set (networks class_num).
           \<exists>net. init = Inr net \<and> operands_agree training net (N, 3, 32, 32)"
  by (simp add: networks_def Resnet18_operands ResBottleNecknet18_operands
      ResBottleNecknet50_operands PreActResNet_operands ResNext_operands ConvNeXt_operands)

theorem residual_operands_have_equal_shape_witness:
  "(\<exists>net. ResBottleNecknet18 10 = Inr net \<and> operands_agree True net (1, 3, 32, 32)) \<and>
   (\<exists>net. ConvNeXt 10 = Inr net \<and> operands_agree True net (1, 3, 32, 32))"
  using residual_operands_have_equal_shape [of 1 10 True] by (simp add: networks_def)


section \<open>Flags, strides and resolutions\<close>

lemma flagged_ResBlock: "ResBlock_init i j d = Inr b \<Longrightarrow> flagged (RB b) = d"
  by (auto simp: init_defs split: if_splits)

lemma flagged_ResBottleNeckBlock:
  "ResBottleNeckBlock_init i j d s = Inr b \<Longrightarrow> flagged (BN b) = d"
  by (auto simp: init_defs Let_def split: if_splits)

lemma flagged_PreActResBlock: "PreActResBlock_init i j d = Inr b \<Longrightarrow> flagged (PA b) = d"
  by (auto simp: init_defs split: if_splits)

lemma flagged_ResNextBlock:
  "ResNextBlock_init i m j c d s = Inr b \<Longrightarrow> flagged (NX b) = d"
  by (auto simp: init_defs Let_def split: if_splits)

lemma stride_ResBottleNeckBlock:
  "ResBottleNeckBlock_init i j d s = Inr b \<Longrightarrow>
   block_stride (BN b) = (case s of None \<Rightarrow> if d then 2 else 1 | Some v \<Rightarrow> v)"
  by (auto simp: init_defs Let_def block_stride_def split: if_splits option.splits)

lemma stride_ResNextBlock:
  "ResNextBlock_init i m j c d s = Inr b \<Longrightarrow>
   block_stride (NX b) = (case s of None \<Rightarrow> if d then 2 else 1 | Some v \<Rightarrow> v)"
  by (auto simp: init_defs Let_def block_stride_def split: if_splits option.splits)

lemma stride_ResBlock:
  "ResBlock_init i j d = Inr b \<Longrightarrow> block_stride (RB b) = (if d then 2 else 1)"
  by (auto simp: init_defs Let_def block_stride_def split: if_splits)

lemma stride_PreActResBlock:
  "PreActResBlock_init i j d = Inr b \<Longrightarrow> block_stride (PA b) = (if d then 2 else 1)"
  by (auto simp: init_defs Let_def block_stride_def split: if_splits)


lemmas trace_defs = resolution_trace_def block_stride_def

lemma Resnet18_resolution:
  "resolution_trace tr (Resnet18 k) (N, 3, 32, 32) =
     [(False, 1, (32, 32), (32, 32)), (False, 1, (32, 32), (32, 32)),
      (True, 2, (32, 32), (16, 16)), (False, 1, (16, 16), (16, 16)),
      (True, 2, (16, 16), (8, 8)), (False, 1, (8, 8), (8, 8)),
      (True, 2, (8, 8), (4, 4)), (False, 1, (4, 4), (4, 4))]"
  by (simp add: trace_defs Resnet18_def init_defs block_defs)

lemma ResBottleNecknet18_resolution:
  "resolution_trace tr (ResBottleNecknet18 k) (N, 3, 32, 32) =
     [(True, 1, (32, 32), (32, 32)), (False, 1, (32, 32), (32, 32)),
      (True, 2, (32, 32), (16, 16)), (False, 1, (16, 16), (16, 16)),
      (True, 2, (16, 16), (8, 8)), (False, 1, (8, 8), (8, 8)),
      (True, 2, (8, 8), (4, 4)), (False, 1, (4, 4), (4, 4))]"
  by (simp add: trace_defs ResBottleNecknet18_def init_defs block_defs concat_loop_shape)

lemma ResBottleNecknet50_resolution:
  "resolution_trace tr (ResBottleNecknet50 k) (N, 3, 32, 32) =
     [(True, 1, (32, 32), (32, 32)), (False, 1, (32, 32), (32, 32)),
      (False, 1, (32, 32), (32, 32)),
      (True, 2, (32, 32), (16, 16)), (False, 1, (16, 16), (16, 16)),
      (False, 1, (16, 16), (16, 16)), (False, 1, (16, 16), (16, 16)),
      (True, 2, (16, 16), (8, 8)), (False, 1, (8, 8), (8, 8)), (False, 1, (8, 8), (8, 8)),
      (False, 1, (8, 8), (8, 8)), (False, 1, (8, 8), (8, 8)), (False, 1, (8, 8), (8, 8)),
      (True, 2, (8, 8), (4, 4)), (False, 1, (4, 4), (4, 4)), (False, 1, (4, 4), (4, 4))]"
  by (simp add: trace_defs ResBottleNecknet50_def init_defs block_defs concat_loop_shape)

lemma PreActResNet_resolution:
  "resolution_trace tr (PreActResNet k) (N, 3, 32, 32) =
     [(False, 1, (32, 32), (32, 32)), (False, 1, (32, 32), (32, 32)),
      (True, 2, (32, 32), (16, 16)), (False, 1, (16, 16), (16, 16)),
      (True, 2, (16, 16), (8, 8)), (False, 1, (8, 8), (8, 8)),
      (True, 2, (8, 8), (4, 4)), (False, 1, (4, 4), (4, 4))]"
  by (simp add: trace_defs PreActResNet_def init_defs block_defs)

lemma ResNext_resolution:
  "resolution_trace tr (ResNext k) (N, 3, 32, 32) =
     [(True, 1, (32, 32), (32, 32)), (False, 1, (32, 32), (32, 32)),
      (True, 2, (32, 32), (16, 16)), (False, 1, (16, 16), (16, 16)),
      (True, 2, (16, 16), (8, 8)), (False, 1, (8, 8), (8, 8)),
      (True, 2, (8, 8), (4, 4)), (False, 1, (4, 4), (4, 4))]"
  by (simp add: trace_defs ResNext_def init_defs block_defs)

lemma ConvNeXt_resolution:
  "resolution_trace tr (ConvNeXt k) (N, 3, 32, 32) =
     [(False, 1, (16, 16), (16, 16)), (False, 1, (16, 16), (16, 16)),
      (False, 1, (8, 8), (8, 8)), (False, 1, (8, 8), (8, 8)),
      (False, 1, (4, 4), (4, 4)), (False, 1, (4, 4), (4, 4)), (False, 1, (4, 4), (4, 4)),
      (False, 1, (4, 4), (4, 4)), (False, 1, (4, 4), (4, 4)), (False, 1, (4, 4), (4, 4)),
      (False, 1, (2, 2), (2, 2)), (False, 1, (2, 2), (2, 2))]"
  by (simp add: trace_defs ConvNeXt_def init_defs block_defs)

lemmas resolution_32 =
  Resnet18_resolution ResBottleNecknet18_resolution ResBottleNecknet50_resolution
  PreActResNet_resolution ResNext_resolution ConvNeXt_resolution

text \<open>
  C6 as stated fails: the first block of \<open>ResBottleNecknet18\<close> is built with
  \<^verbatim>\<open>is_downsample=True, stride=1\<close>: it is flagged as downsampling and keeps 32 x 32.
\<close>

theorem flagged_block_keeps_resolution:
  "hd (resolution_trace True (ResBottleNecknet18 10) (1, 3, 32, 32)) =
     (True, 1, (32, 32), (32, 32)) \<and>
   \<not> list_all halves_when_flagged (resolution_trace True (ResBottleNecknet18 10) (1, 3, 32, 32))"
  by (simp add: ResBottleNecknet18_resolution)

text \<open>
  C6, amended. In every one of the six networks, on an input of shape \<open>[N, 3, 32, 32]\<close>,
  every block that is flagged as downsampling and has stride 2 halves the height and
  the width, and every other block (not flagged, or flagged but built with
  \<^verbatim>\<open>stride=1\<close>) keeps them. The networks have 8, 8, 16, 8, 8 and 12 blocks, and each of
  them is reached.
\<close>

theorem resolution_halved_by_stride:
  assumes "1 \<le> N"
  shows "(\<forall>init \<in> set (networks class_num).
            list_all halves_when_strided (resolution_trace training init (N, 3, 32, 32))) \<and>
         map (\<lambda>init. length (resolution_trace training init (N, 3, 32, 32))) (networks class_num) =
           [8, 8, 16, 8, 8, 12]"
  by (simp add: networks_def resolution_32)

theorem resolution_halved_by_stride_witness:
  "list_all halves_when_strided (resolution_trace True (ResNext 10) (1, 3, 32, 32)) \<and>
   length (resolution_trace True (ResNext 10) (1, 3, 32, 32)) = 8"
  using resolution_halved_by_stride [of 1 10 True] by (simp add: networks_def)

section \<open>The shortcut of ResBlock and ResNextBlock\<close>

lemma Resnet18_shortcuts:
  "list_all identity_iff_same_shape (shortcut_trace tr (Resnet18 k) (N, 3, 32, 32)) \<and>
   length (shortcut_trace tr (Resnet18 k) (N, 3, 32, 32)) = block_count (Resnet18 k)"
  by (simp add: shortcut_trace_def block_count_def Resnet18_def init_defs block_defs)

lemma ResBottleNecknet18_shortcuts:
  "list_all identity_iff_same_shape (shortcut_trace tr (ResBottleNecknet18 k) (N, 3, 32, 32)) \<and>
   length (shortcut_trace tr (ResBottleNecknet18 k) (N, 3, 32, 32)) =
     block_count (ResBottleNecknet18 k)"
  by (simp add: shortcut_trace_def block_count_def ResBottleNecknet18_def init_defs block_defs
      concat_loop_shape)

lemma ResBottleNecknet50_shortcuts:
  "list_all identity_iff_same_shape (shortcut_trace tr (ResBottleNecknet50 k) (N, 3, 32, 32)) \<and>
   length (shortcut_trace tr (ResBottleNecknet50 k) (N, 3, 32, 32)) =
     block_count (ResBottleNecknet50 k)"
  by (simp add: shortcut_trace_def block_count_def ResBottleNecknet50_def init_defs block_defs
      concat_loop_shape)

lemma PreActResNet_shortcuts:
  "list_all identity_iff_same_shape (shortcut_trace tr (PreActResNet k) (N, 3, 32, 32)) \<and>
   length (shortcut_trace tr (PreActResNet k) (N, 3, 32, 32)) = block_count (PreActResNet k)"
  by (simp add: shortcut_trace_def block_count_def PreActResNet_def init_defs block_defs)

lemma ResNext_shortcuts:
  "list_all identity_iff_same_shape (shortcut_trace tr (ResNext k) (N, 3, 32, 32)) \<and>
   length (shortcut_trace tr (ResNext k) (N, 3, 32, 32)) = block_count (ResNext k)"
  by (simp add: shortcut_trace_def block_count_def ResNext_def init_defs block_defs)

lemma ConvNeXt_shortcuts:
  "list_all identity_iff_same_shape (shortcut_trace tr (ConvNeXt k) (N, 3, 32, 32)) \<and>
   length (shortcut_trace tr (ConvNeXt k) (N, 3, 32, 32)) = block_count (ConvNeXt k)"
  by (simp add: shortcut_trace_def block_count_def ConvNeXt_def init_defs block_defs)

lemmas shortcuts_32 =
  Resnet18_shortcuts ResBottleNecknet18_shortcuts ResBottleNecknet50_shortcuts
  PreActResNet_shortcuts ResNext_shortcuts ConvNeXt_shortcuts

lemma block_counts: "map block_count (networks k) = [8, 8, 16, 8, 8, 12]"
  by (simp add: networks_def block_count_def Resnet18_def ResBottleNecknet18_def
      ResBottleNecknet50_def PreActResNet_def ResNext_def ConvNeXt_def init_defs)

lemma Resnet18_shortcut_counts:
  "length (filter has_projection (shortcut_trace tr (Resnet18 k) (N, 3, 32, 32))) = 8 \<and>
   length (filter has_identity (shortcut_trace tr (Resnet18 k) (N, 3, 32, 32))) = 5"
  by (simp add: shortcut_trace_def Resnet18_def init_defs block_defs)

lemma ResNext_shortcut_counts:
  "length (filter has_projection (shortcut_trace tr (ResNext k) (N, 3, 32, 32))) = 8 \<and>
   length (filter has_identity (shortcut_trace tr (ResNext k) (N, 3, 32, 32))) = 4"
  by (simp add: shortcut_trace_def ResNext_def init_defs block_defs)

lemma ResBlock_shortcut_module:
  "map_sum id rb_downsample (ResBlock_init i j d) =
     Inr (if d then Sequential [Conv2d i j 1 2 0 1 False, BatchNorm2d j] else Module Identity)"
  by (simp add: init_defs)

lemma ResNextBlock_shortcut_module:
  assumes "ResNextBlock_init i m j c d s = Inr b"
  shows "nx_downsample b =
     (if d then Sequential [Conv2d i j 1 (block_stride (NX b)) 0 1 False, BatchNorm2d j]
      else Module Identity)"
  using assms
  by (auto simp: init_defs Let_def block_stride_def split: if_splits option.splits)

text \<open>
  C7 as stated fails. \<^verbatim>\<open>ResBlock(64, 128)\<close> changes the channel count and has the identity
  shortcut (its forward pass then raises); \<^verbatim>\<open>ResNextBlock(256, 128, 256,
  is_downsample=True, stride=1)\<close> returns the shape it receives and has the projection
  shortcut.
\<close>

theorem shortcut_ignores_channels:
  "ResBlock_init 64 128 False =
     Inr \<lparr>rb_is_downsample = False,
          rb_seq = [Conv2d 64 128 3 1 1 1 False, BatchNorm2d 128, ReLU,
                    Conv2d 128 128 3 1 1 1 False, BatchNorm2d 128],
          rb_downsample = Module Identity\<rparr> \<and>
   bindE (ResBlock_init 64 128 False) (\<lambda>b. ResBlock_forward False b (1, 64, 32, 32)) =
     Inl Not_broadcastable \<and>
   map_sum id nx_downsample (ResNextBlock_init 256 128 256 32 True (Some 1)) =
     Inr (Sequential [Conv2d 256 256 1 1 0 1 False, BatchNorm2d 256]) \<and>
   bindE (ResNextBlock_init 256 128 256 32 True (Some 1))
     (\<lambda>b. ResNextBlock_forward False b (1, 256, 32, 32)) = Inr (1, 256, 32, 32)"
  by (simp add: init_defs block_defs)

text \<open>
  C7, amended. For every \<open>ResBlock\<close> and every \<open>ResNextBlock\<close> the shortcut is chosen by
  the flag \<^verbatim>\<open>is_downsample\<close> alone: \<^verbatim>\<open>nn.Identity()\<close> when it is false, and a 1x1
  convolution from \<^verbatim>\<open>in_channel\<close> to \<^verbatim>\<open>out_channel\<close> with the stride of the main path
  followed by \<^verbatim>\<open>BatchNorm2d(out_channel)\<close> when it is true. For the blocks as the six
  networks configure them, on \<open>[N, 3, 32, 32]\<close>, the shortcut is the identity exactly when
  the block's output shape equals its input shape: every block of every network returns
  (8, 8, 16, 8, 8 and 12 blocks), the 8 blocks of \<open>Resnet18\<close> are \<open>ResBlock\<close>s, 5 of them
  with the identity shortcut, and the 8 blocks of \<open>ResNext\<close> are \<open>ResNextBlock\<close>s, 4 of
  them with the identity shortcut.
\<close>

theorem shortcut_follows_flag:
  assumes "1 \<le> N"
  shows "map_sum id rb_downsample (ResBlock_init i j d) =
           Inr (if d then Sequential [Conv2d i j 1 2 0 1 False, BatchNorm2d j]
                else Module Identity) \<and>
         map_sum id (\<lambda>b. block_stride (RB b)) (ResBlock_init i j d) = Inr (if d then 2 else 1) \<and>
         (\<forall>b. ResNextBlock_init i m j c d s = Inr b \<longrightarrow>
            nx_downsample b =
              (if d then Sequential [Conv2d i j 1 (block_stride (NX b)) 0 1 False, BatchNorm2d j]
               else Module Identity)) \<and>
         (\<forall>init \<in> set (networks class_num).
            list_all identity_iff_same_shape (shortcut_trace training init (N, 3, 32, 32)) \<and>
            length (shortcut_trace training init (N, 3, 32, 32)) = block_count init) \<and>
         map block_count (networks class_num) = [8, 8, 16, 8, 8, 12] \<and>
         length (filter has_projection
           (shortcut_trace training (Resnet18 class_num) (N, 3, 32, 32))) = 8 \<and>
         length (filter has_identity
           (shortcut_trace training (Resnet18 class_num) (N, 3, 32, 32))) = 5 \<and>
         length (filter has_projection
           (shortcut_trace training (ResNext class_num) (N, 3, 32, 32))) = 8 \<and>
         length (filter has_identity
           (shortcut_trace training (ResNext class_num) (N, 3, 32, 32))) = 4"
proof -
  have "map_sum id (\<lambda>b. block_stride (RB b)) (ResBlock_init i j d) = Inr (if d then 2 else 1)"
    by (simp add: init_defs block_stride_def)
  moreover have "\<forall>init \<in> set (networks class_num).
            list_all identity_iff_same_shape (shortcut_trace training init (N, 3, 32, 32)) \<and>
            length (shortcut_trace training init (N, 3, 32, 32)) = block_count init"
    by (simp add: networks_def shortcuts_32)
  ultimately show ?thesis
    using ResBlock_shortcut_module [of i j d] ResNextBlock_shortcut_module [of i m j c d s]
      block_counts [of class_num] Resnet18_shortcut_counts [of training class_num N]
      ResNext_shortcut_counts [of training class_num N]
    by blast
qed

theorem shortcut_follows_flag_witness:
  "map_sum id rb_downsample (ResBlock_init 64 256 True) =
     Inr (Sequential [Conv2d 64 256 1 2 0 1 False, BatchNorm2d 256]) \<and>
   map_sum id rb_downsample (ResBlock_init 64 256 False) = Inr (Module Identity) \<and>
   (\<exists>b. ResNextBlock_init 64 128 256 32 True (Some 1) = Inr b \<and>
        nx_downsample b = Sequential [Conv2d 64 256 1 1 0 1 False, BatchNorm2d 256]) \<and>
   (\<exists>b. ResNextBlock_init 256 128 256 32 False None = Inr b \<and>
        nx_downsample b = Module Identity) \<and>
   list_all identity_iff_same_shape (shortcut_trace True (ResNext 10) (1, 3, 32, 32)) \<and>
   length (shortcut_trace True (ResNext 10) (1, 3, 32, 32)) = 8 \<and>
   list_all identity_iff_same_shape (shortcut_trace True (Resnet18 10) (1, 3, 32, 32)) \<and>
   length (shortcut_trace True (Resnet18 10) (1, 3, 32, 32)) = 8"
proof -
  obtain b where b: "ResNextBlock_init 64 128 256 32 True (Some 1) = Inr b"
    by (simp add: init_defs)
  obtain b' where b': "ResNextBlock_init 256 128 256 32 False None = Inr b'"
    by (simp add: init_defs)
  have s: "block_stride (NX b) = 1" using b by (auto simp: init_defs block_stride_def)
  show ?thesis
    using shortcut_follows_flag [of 1 64 256 True 128 32 "Some 1" 10 True]
      shortcut_follows_flag [of 1 256 256 False 128 32 None 10 True]
      shortcut_follows_flag [of 1 64 256 False 128 32 None 10 True] b b' s
    by (simp add: networks_def)
qed

section \<open>Layers on shapes of any size\<close>

lemma conv_out_positive: "1 \<le> conv_out h k s p"
  by (simp add: conv_out_def)

lemma batchnorm_forward:
  assumes "tr \<longrightarrow> n * h * w \<noteq> 1"
  shows "layer_forward tr (BatchNorm2d c) (n, c, h, w) = Inr (n, c, h, w)"
  using assms by auto

lemma conv_pointwise_forward:
  assumes "1 \<le> h" and "1 \<le> w" and "1 \<le> ci" and "1 \<le> co"
  shows "layer_forward tr (Conv2d ci co 1 1 0 1 b) (n, ci, h, w) = Inr (n, co, h, w)"
  using assms by (simp add: conv_out_def)

lemma conv3_forward:
  assumes "1 \<le> h" and "1 \<le> w" and "1 \<le> s" and "1 \<le> ci" and "1 \<le> co"
  shows "layer_forward tr (Conv2d ci co 3 s 1 1 b) (n, ci, h, w) =
           Inr (n, co, conv_out h 3 s 1, conv_out w 3 s 1)"
proof -
  have "\<not> (h + 2 * 1 < 3 \<or> w + 2 * 1 < 3)" using assms(1,2) by arith
  moreover have "s \<noteq> 0" using assms(3) by arith
  moreover have "\<not> (ci = 0 \<or> co = 0)" using assms(4,5) by arith
  ultimately show ?thesis by (simp only: layer_forward.simps if_False simp_thms)
qed




lemma slice_len_conv_out:
  assumes "1 \<le> h" and "1 \<le> s"
  shows "slice_len h s = conv_out h 3 s 1"
proof -
  have a: "h + s - 1 = (h - 1) + s" using assms(1) by arith
  have b: "h + 2 * 1 - 3 = h - 1" by arith
  have "((h - 1) + s) div s = (h - 1) div s + 1" using assms(2) by simp
  then show ?thesis unfolding slice_len_def conv_out_def a b .
qed


lemma add_shapes_channels:
  assumes "c \<noteq> 1" and "c' \<noteq> 1"
  shows "add_shapes (n, c, h, w) (n, c', h, w) =
           (if c = c' then Inr (n, c, h, w) else Inl Not_broadcastable)"
  using assms by (simp add: broadcast_def)

lemma not_single_batch: "1 < n \<Longrightarrow> n * a * c \<noteq> (1::nat)"
  by auto



section \<open>The zero-padding shortcut of ResBottleNeckBlock\<close>

lemma ResBottleNeckBlock_init_total:
  "ResBottleNeckBlock_init i j d strd =
     Inr \<lparr>bn_stride = (case strd of None \<Rightarrow> if d then 2 else 1 | Some v \<Rightarrow> v),
          bn_in_channel = i, bn_out_channel = j,
          bn_seq = [Conv2d i (j div 4) 1 1 0 1 False, BatchNorm2d (j div 4), ReLU,
                    Conv2d (j div 4) (j div 4) 3
                      (case strd of None \<Rightarrow> if d then 2 else 1 | Some v \<Rightarrow> v) 1 1 False,
                    BatchNorm2d (j div 4), ReLU,
                    Conv2d (j div 4) j 1 1 0 1 False, BatchNorm2d j],
          bn_downsample = (if d then identitymap else Module_Identity)\<rparr>"
  by (simp add: init_defs Let_def)

lemma ResBottleNeckBlock_identitymap_shape:
  assumes "ResBottleNeckBlock_init i j True strd = Inr b" and "1 \<le> i" and "1 \<le> bn_stride b"
  shows "ResBottleNeckBlock_shortcut tr b (n, i, h, w) =
           Inr (n, i * 2 ^ ((j div i) div 2), slice_len h (bn_stride b), slice_len w (bn_stride b))"
  using assms
  by (auto simp: ResBottleNeckBlock_init_total ResBottleNeckBlock_shortcut_def
      ResBottleNeckBlock_identitymap_def concat_loop_shape Let_def)

lemma ResBottleNeckBlock_main_shape:
  assumes "ResBottleNeckBlock_init i j d strd = Inr b" and "1 \<le> h" and "1 \<le> w"
    and "1 \<le> bn_stride b" and "tr \<longrightarrow> 1 < n" and "1 \<le> i" and "4 \<le> j"
  shows "ResBottleNeckBlock_main tr b (n, i, h, w) =
           Inr (n, j, slice_len h (bn_stride b), slice_len w (bn_stride b))"
proof -
  define s where "s = (case strd of None \<Rightarrow> if d then 2 else 1 | Some v \<Rightarrow> v)"
  have b: "b = \<lparr>bn_stride = s, bn_in_channel = i, bn_out_channel = j,
          bn_seq = [Conv2d i (j div 4) 1 1 0 1 False, BatchNorm2d (j div 4), ReLU,
                    Conv2d (j div 4) (j div 4) 3 s 1 1 False,
                    BatchNorm2d (j div 4), ReLU,
                    Conv2d (j div 4) j 1 1 0 1 False, BatchNorm2d j],
          bn_downsample = (if d then identitymap else Module_Identity)\<rparr>"
    using assms(1) unfolding ResBottleNeckBlock_init_total s_def by simp
  have s: "1 \<le> s" using assms(4) by (simp add: b)
  have bn: "layer_forward tr (BatchNorm2d c) (n, c, a, e) = Inr (n, c, a, e)" for a c e
    by (rule batchnorm_forward) (use assms(5) not_single_batch in blast)
  have st: "bn_stride b = s" by (simp add: b)
  have q: "1 \<le> j div 4" and j: "1 \<le> j" using assms(7) by arith+
  have m: "ResBottleNeckBlock_main tr b (n, i, h, w) =
          Inr (n, j, conv_out h 3 s 1, conv_out w 3 s 1)"
    unfolding ResBottleNeckBlock_main_def b
    by (simp only: ResBottleNeckBlock.simps Sequential_forward.simps bindE.simps bn
        conv_pointwise_forward [OF assms(2,3,6) q] conv3_forward [OF assms(2,3) s q q]
        conv_pointwise_forward [OF conv_out_positive conv_out_positive q j]
        layer_forward.simps(4))
  show ?thesis
    unfolding st slice_len_conv_out [OF assms(2) s] slice_len_conv_out [OF assms(3) s]
    by (rule m)
qed

lemma two_power_not_one: "4 \<le> j \<Longrightarrow> 1 \<le> i \<Longrightarrow> i * 2 ^ ((j div i) div 2) \<noteq> (1::nat)"
proof
  assume j: "4 \<le> j" and i: "1 \<le> i" and e: "i * 2 ^ ((j div i) div 2) = 1"
  then have "i = 1" by simp
  then have "(j div i) div 2 = j div 2" by simp
  moreover have "1 \<le> j div 2" using j by arith
  ultimately have "(2::nat) \<le> 2 ^ ((j div i) div 2)"
    by (metis One_nat_def power_increasing power_one_right one_le_numeral)
  then show False using e \<open>i = 1\<close> by simp
qed

lemma ResBottleNeckBlock_forward_shape:
  assumes "1 \<le> i" and "4 \<le> j" and "1 \<le> h" and "1 \<le> w"
    and "strd \<noteq> Some 0" and "training \<longrightarrow> 1 < n"
  shows "\<exists>b. ResBottleNeckBlock_init i j True strd = Inr b \<and>
             ResBottleNeckBlock_forward training b (n, i, h, w) =
               (if i * 2 ^ ((j div i) div 2) = j
                then Inr (n, j, slice_len h (bn_stride b), slice_len w (bn_stride b))
                else Inl Not_broadcastable)"
proof -
  obtain b where b: "ResBottleNeckBlock_init i j True strd = Inr b"
    by (simp add: ResBottleNeckBlock_init_total)
  have s: "1 \<le> bn_stride b"
    using b assms(5) unfolding ResBottleNeckBlock_init_total by (cases strd) auto
  have c: "i * 2 ^ ((j div i) div 2) \<noteq> 1" using assms(1,2) by (rule two_power_not_one[rotated])
  have j: "j \<noteq> 1" using assms(2) by arith
  have "ResBottleNeckBlock_forward training b (n, i, h, w) =
          bindE (add_shapes (n, j, slice_len h (bn_stride b), slice_len w (bn_stride b))
                   (n, i * 2 ^ ((j div i) div 2), slice_len h (bn_stride b), slice_len w (bn_stride b)))
            (layer_forward training ReLU)"
    unfolding ResBottleNeckBlock_forward_def
      ResBottleNeckBlock_main_shape [OF b assms(3,4) s assms(6,1,2)]
      ResBottleNeckBlock_identitymap_shape [OF b assms(1) s]
    by (simp only: bindE.simps)
  also have "\<dots> = (if i * 2 ^ ((j div i) div 2) = j
                then Inr (n, j, slice_len h (bn_stride b), slice_len w (bn_stride b))
                else Inl Not_broadcastable)"
    unfolding add_shapes_channels [OF j c] by auto
  finally show ?thesis using b by blast
qed

lemma identitymap_64_256:
  "bindE (ResBottleNeckBlock_init 64 256 True (Some 1))
     (\<lambda>b. ResBottleNeckBlock_shortcut tr b (n, 64, h, w)) = Inr (n, 256, h, w)"
  by (simp add: init_defs block_defs concat_loop_shape)

lemma identitymap_small_ratios:
  assumes "ResBottleNeckBlock_init i j True strd = Inr b" and "1 \<le> i" and "1 \<le> bn_stride b"
    and "j = i \<or> j = 2 * i \<or> j = 4 * i"
  shows "ResBottleNeckBlock_shortcut tr b (n, i, h, w) =
           Inr (n, j, slice_len h (bn_stride b), slice_len w (bn_stride b))"
proof -
  have "i * 2 ^ ((j div i) div 2) = j" using assms(2,4) by auto
  then show ?thesis using ResBottleNeckBlock_identitymap_shape [OF assms(1-3)] by simp
qed

lemma power_of_two_three: "\<not> power_of_two 3"
proof
  assume "power_of_two 3"
  then obtain k where k: "(3::nat) = 2 ^ k" unfolding power_of_two_def by blast
  show False
  proof (cases k)
    case 0
    then show ?thesis using k by simp
  next
    case (Suc m)
    then have "(3::nat) = 2 * 2 ^ m" using k by simp
    then have "even (3::nat)" by (metis dvd_triv_left)
    then show ?thesis by simp
  qed
qed

lemma unsuited_pair_channels:
  assumes "1 \<le> i" and "unsuited_pair i j"
  shows "i * 2 ^ ((j div i) div 2) \<noteq> j"
proof
  assume e: "i * 2 ^ ((j div i) div 2) = j"
  then have d: "i dvd j" by (metis dvd_triv_left)
  then have "j mod i = 0" by simp
  moreover have "power_of_two (j div i)"
  proof -
    have "j div i = 2 ^ ((j div i) div 2)" using e assms(1)
      by (metis One_nat_def less_eq_Suc_le nonzero_mult_div_cancel_left not_less_zero)
    moreover have "(j div i) div 2 \<in> {0..j div i}" by simp
    ultimately show ?thesis unfolding power_of_two_def by blast
  qed
  ultimately show False using assms(2) by (simp add: unsuited_pair_def)
qed

lemma bindE_Inr: "bindE m f = Inr y \<Longrightarrow> \<exists>x. m = Inr x \<and> f x = Inr y"
  by (cases m) simp_all

lemma conv_forward_Inr:
  assumes "layer_forward tr (Conv2d ci co k s p g b) x = Inr y"
  shows "1 \<le> co \<and> fst (snd y) = co"
  using assms by (cases x) (auto split: if_splits)

lemma batchnorm_forward_Inr:
  assumes "layer_forward tr (BatchNorm2d c) x = Inr y"
  shows "fst (snd y) = c"
  using assms by (cases x) (auto split: if_splits)

lemma ResBottleNeckBlock_main_channels:
  assumes "ResBottleNeckBlock_init i j d strd = Inr b"
    and "ResBottleNeckBlock_main tr b x = Inr y"
  shows "\<exists>n h w. y = (n, j, h, w) \<and> 4 \<le> j"
proof -
  define s where "s = (case strd of None \<Rightarrow> if d then 2 else 1 | Some v \<Rightarrow> v)"
  have b: "bn_seq b = [Conv2d i (j div 4) 1 1 0 1 False, BatchNorm2d (j div 4), ReLU,
                    Conv2d (j div 4) (j div 4) 3 s 1 1 False,
                    BatchNorm2d (j div 4), ReLU,
                    Conv2d (j div 4) j 1 1 0 1 False, BatchNorm2d j]"
    using assms(1) unfolding ResBottleNeckBlock_init_total s_def by auto
  from assms(2) obtain x1 x7 where
    1: "layer_forward tr (Conv2d i (j div 4) 1 1 0 1 False) x = Inr x1" and
    8: "layer_forward tr (BatchNorm2d j) x7 = Inr y"
    unfolding ResBottleNeckBlock_main_def b Sequential_forward.simps
    by (blast dest!: bindE_Inr)
  have "1 \<le> j div 4" using conv_forward_Inr [OF 1] by simp
  then have "4 \<le> j" by arith
  moreover have "fst (snd y) = j" using 8 by (rule batchnorm_forward_Inr)
  ultimately show ?thesis by (cases y) auto
qed

lemma ResBottleNeckBlock_shortcut_channels:
  assumes "ResBottleNeckBlock_init i j True strd = Inr b" and "1 \<le> i"
    and "ResBottleNeckBlock_shortcut tr b (n, i, h, w) = Inr z"
  shows "\<exists>n' h' w'. z = (n', i * 2 ^ ((j div i) div 2), h', w')"
  using assms
  by (auto simp: ResBottleNeckBlock_init_total ResBottleNeckBlock_shortcut_def
      ResBottleNeckBlock_identitymap_def concat_loop_shape Let_def split: if_splits)

lemma add_shapes_channels_differ:
  assumes "c \<noteq> 1" and "c' \<noteq> 1" and "c \<noteq> c'"
  shows "\<exists>e. add_shapes (n, c, h, w) (n', c', h', w') = Inl e"
proof (cases "broadcast n n'")
  case (Inl e)
  then show ?thesis by simp
next
  case (Inr m)
  have "broadcast c c' = Inl Not_broadcastable" using assms by (simp add: broadcast_def)
  then show ?thesis using Inr by simp
qed

text \<open>
  C4 as stated fails: \<^verbatim>\<open>ResBottleNeckBlock(64, 192, is_downsample=True)\<close> (ratio 3, not a
  power of two) and \<^verbatim>\<open>ResBottleNeckBlock(64, 100, is_downsample=True)\<close> (100 is not a
  multiple of 64) are both built; it is their forward pass that raises.
\<close>

theorem ResBottleNeckBlock_built_unchecked:
  "ResBottleNeckBlock_init 64 192 True None =
     Inr \<lparr>bn_stride = 2, bn_in_channel = 64, bn_out_channel = 192,
          bn_seq = [Conv2d 64 48 1 1 0 1 False, BatchNorm2d 48, ReLU,
                    Conv2d 48 48 3 2 1 1 False, BatchNorm2d 48, ReLU,
                    Conv2d 48 192 1 1 0 1 False, BatchNorm2d 192],
          bn_downsample = identitymap\<rparr> \<and>
   map_sum id bn_out_channel (ResBottleNeckBlock_init 64 100 True None) = Inr 100 \<and>
   bindE (ResBottleNeckBlock_init 64 192 True None)
     (\<lambda>b. ResBottleNeckBlock_forward True b (2, 64, 32, 32)) = Inl Not_broadcastable \<and>
   bindE (ResBottleNeckBlock_init 64 100 True None)
     (\<lambda>b. ResBottleNeckBlock_forward True b (2, 64, 32, 32)) = Inl Not_broadcastable"
  by (simp add: init_defs block_defs concat_loop_shape)

text \<open>
  C4, amended. A channel pair with \<^verbatim>\<open>out_channel % in_channel != 0\<close>, or whose ratio is
  not a power of two, is not rejected by an assertion at construction time (the
  constructor has none: the blocks above are built) but at forward time. For
  \<open>in_channel \<ge> 1\<close> and \<open>out_channel \<ge> 1\<close>, a block that the constructor has returned
  for such a pair, with \<^verbatim>\<open>is_downsample\<close> true and any stride, raises in \<open>forward\<close> on
  every input of shape \<open>[N, in_channel, H, W]\<close>. When moreover \<open>out_channel \<ge> 4\<close>,
  \<open>H \<ge> 1\<close>, \<open>W \<ge> 1\<close>, the stride is not 0 and, in training mode, \<open>N \<ge> 2\<close>, both paths
  return and it is the residual sum that raises, its operands having different numbers
  of channels.
\<close>

theorem ResBottleNeckBlock_rejects_at_forward:
  assumes "1 \<le> i" and "1 \<le> j" and "unsuited_pair i j"
    and "ResBottleNeckBlock_init i j True strd = Inr b"
  shows "(\<exists>e. ResBottleNeckBlock_forward training b (n, i, h, w) = Inl e) \<and>
         (4 \<le> j \<and> 1 \<le> h \<and> 1 \<le> w \<and> strd \<noteq> Some 0 \<and> (training \<longrightarrow> 1 < n) \<longrightarrow>
            (\<exists>y z. ResBottleNeckBlock_main training b (n, i, h, w) = Inr y \<and>
                   ResBottleNeckBlock_shortcut training b (n, i, h, w) = Inr z \<and>
                   fst (snd y) \<noteq> fst (snd z)) \<and>
            ResBottleNeckBlock_forward training b (n, i, h, w) = Inl Not_broadcastable)"
proof (intro conjI impI)
  note ne = unsuited_pair_channels [OF assms(1,3)]
  show "\<exists>e. ResBottleNeckBlock_forward training b (n, i, h, w) = Inl e"
  proof (cases "ResBottleNeckBlock_main training b (n, i, h, w)")
    case (Inl e)
    then show ?thesis by (simp add: ResBottleNeckBlock_forward_def)
  next
    case y: (Inr y)
    show ?thesis
    proof (cases "ResBottleNeckBlock_shortcut training b (n, i, h, w)")
      case (Inl e)
      then show ?thesis using y by (simp add: ResBottleNeckBlock_forward_def)
    next
      case z: (Inr z)
      from ResBottleNeckBlock_main_channels [OF assms(4) y]
      obtain n1 h1 w1 where y1: "y = (n1, j, h1, w1)" and j: "4 \<le> j" by blast
      from ResBottleNeckBlock_shortcut_channels [OF assms(4,1) z]
      obtain n2 h2 w2 where z1: "z = (n2, i * 2 ^ ((j div i) div 2), h2, w2)" by blast
      have c: "i * 2 ^ ((j div i) div 2) \<noteq> 1" using j assms(1) by (rule two_power_not_one)
      have j1: "j \<noteq> 1" using j by arith
      have "\<exists>e. add_shapes y z = Inl e"
        unfolding y1 z1 by (rule add_shapes_channels_differ [OF j1 c ne [symmetric]])
      then show ?thesis using y z by (auto simp: ResBottleNeckBlock_forward_def)
    qed
  qed
next
  assume a: "4 \<le> j \<and> 1 \<le> h \<and> 1 \<le> w \<and> strd \<noteq> Some 0 \<and> (training \<longrightarrow> 1 < n)"
  have s: "1 \<le> bn_stride b"
    using assms(4) a unfolding ResBottleNeckBlock_init_total by (cases strd) auto
  note ne = unsuited_pair_channels [OF assms(1,3)]
  have m: "ResBottleNeckBlock_main training b (n, i, h, w) =
             Inr (n, j, slice_len h (bn_stride b), slice_len w (bn_stride b))"
    using a by (intro ResBottleNeckBlock_main_shape [OF assms(4) _ _ s _ assms(1)]) simp_all
  note c = ResBottleNeckBlock_identitymap_shape [OF assms(4,1) s, of training n h w]
  show "\<exists>y z. ResBottleNeckBlock_main training b (n, i, h, w) = Inr y \<and>
                   ResBottleNeckBlock_shortcut training b (n, i, h, w) = Inr z \<and>
                   fst (snd y) \<noteq> fst (snd z)"
    unfolding m c using ne by simp
  from a ResBottleNeckBlock_forward_shape [of i j h w strd training n] assms(1,4) ne
  show "ResBottleNeckBlock_forward training b (n, i, h, w) = Inl Not_broadcastable"
    by auto
qed

theorem ResBottleNeckBlock_rejects_at_forward_witness:
  "unsuited_pair 64 192 \<and> unsuited_pair 64 100 \<and>
   (\<exists>b. ResBottleNeckBlock_init 64 192 True None = Inr b \<and>
        ResBottleNeckBlock_forward True b (2, 64, 32, 32) = Inl Not_broadcastable) \<and>
   (\<exists>b. ResBottleNeckBlock_init 64 100 True (Some 1) = Inr b \<and>
        ResBottleNeckBlock_forward False b (1, 64, 1, 1) = Inl Not_broadcastable)"
proof -
  have u: "unsuited_pair 64 192" "unsuited_pair 64 100"
    by (simp_all add: unsuited_pair_def power_of_two_three)
  obtain b where b: "ResBottleNeckBlock_init 64 192 True None = Inr b"
    by (simp add: ResBottleNeckBlock_init_total)
  obtain b' where b': "ResBottleNeckBlock_init 64 100 True (Some 1) = Inr b'"
    by (simp add: ResBottleNeckBlock_init_total)
  show ?thesis
    using ResBottleNeckBlock_rejects_at_forward [OF _ _ u(1) b, of True 2 32 32]
      ResBottleNeckBlock_rejects_at_forward [OF _ _ u(2) b', of False 1 1 1] u b b'
    by simp
qed

text \<open>
  C5. The claim fails on the code at the ratio 8. \<open>_identitymap\<close> doubles the channels
  \<open>(out_channel div in_channel) div 2\<close> times, which is the number of doublings needed
  for the ratios 1, 2 and 4 only (the source comments: make \<^verbatim>\<open>in_channel\<close> into
  \<^verbatim>\<open>out_channel\<close>; twofold once, fourfold twice). For
  \<^verbatim>\<open>ResBottleNeckBlock(64, 512, is_downsample=True)\<close> the loop runs 4 times: the shortcut
  returns 1024 channels, the main path 512, and \<open>forward\<close> raises.
\<close>

theorem identitymap_overshoots_at_ratio_eight:
  "bindE (ResBottleNeckBlock_init 64 512 True None)
     (\<lambda>b. ResBottleNeckBlock_shortcut True b (1, 64, 32, 32)) = Inr (1, 1024, 16, 16) \<and>
   bindE (ResBottleNeckBlock_init 64 512 True None)
     (\<lambda>b. ResBottleNeckBlock_main True b (1, 64, 32, 32)) = Inr (1, 512, 16, 16) \<and>
   bindE (ResBottleNeckBlock_init 64 512 True None)
     (\<lambda>b. ResBottleNeckBlock_forward True b (1, 64, 32, 32)) = Inl Not_broadcastable"
  by (simp add: init_defs block_defs concat_loop_shape)

section \<open>Resnet18 on images of any size\<close>














section \<open>The values of a ConvNeXtblock have the shapes of its forward pass\<close>

lemma library_layer_shape:
  assumes "library_layer lib l st x = Inr y"
  shows "layer_forward False l (shp x) = Inr (shp y)"
  using assms by (auto simp: library_layer_def dest!: bindE_Inr)

lemma Conv2d_value_shape:
  assumes "Conv2d_value rnd l st x = Inr y"
  shows "layer_forward False l (shp x) = Inr (shp y)"
  using assms by (cases "(rnd, l, st, x)" rule: Conv2d_value.cases) (auto dest!: bindE_Inr)

lemma add_value_shape:
  "add_value rnd y x = Inr z \<Longrightarrow> add_shapes (shp y) (shp x) = Inr (shp z)"
  by (auto simp: add_value_def dest!: bindE_Inr)

lemma ConvNeXtblock_value_shape:
  assumes "ConvNeXtblock_value rnd lib b st x = Inr y"
  shows "ConvNeXtblock_forward False b (shp x) = Inr (shp y)"
proof -
  from assms obtain x1 x2 x3 x4 x5 where
    1: "library_layer lib (cx_depth_wise b) (st_depth_wise st) x = Inr x1" and
    2: "library_layer lib (cx_norm b) (st_norm st) (permute_value_0231 x1) = Inr x2" and
    3: "library_layer lib (cx_point_wise1 b) (st_point_wise1 st) (permute_value_0312 x2) =
          Inr x3" and
    4: "library_layer lib (cx_gelu b) Stateless x3 = Inr x4" and
    5: "Conv2d_value rnd (cx_point_wise2 b) (st_point_wise2 st) x4 = Inr x5" and
    6: "add_value rnd x5 x = Inr y"
    unfolding ConvNeXtblock_value_def ConvNeXtblock_activation_def Let_def
    by (blast dest!: bindE_Inr)
  show ?thesis
    unfolding ConvNeXtblock_forward_def ConvNeXtblock_main_def
    using library_layer_shape [OF 1] library_layer_shape [OF 2] library_layer_shape [OF 3]
      library_layer_shape [OF 4] Conv2d_value_shape [OF 5] add_value_shape [OF 6]
    by (simp add: permute_value_0231_def permute_value_0312_def)
qed

end
